theory Spec2Isabelle
  imports Complex_Main "HOL-Library.Sublist"
begin

section \<open>Drilling simulation: formation model and simulation engine\<close>

text \<open>
  A shallow embedding of the two classes that carry the logic of the repository:
  \<^verbatim>\<open>FormationModel\<close> (the layer list and its depth queries) and \<^verbatim>\<open>SimulationEngine\<close>
  (controls, the per-tick update, events, equipment health, risk, checkpoints).

  Conventions of the embedding.
  \<^item> JavaScript numbers are modelled as \<^typ>\<open>real\<close>: IEEE rounding, \<^verbatim>\<open>NaN\<close> and the
    infinities are not modelled. Where the source divides by a quantity that can be zero
    the text says so (HOL's \<open>x / 0\<close> is \<open>0\<close>).
  \<^item> Counters that the source only increments from zero are \<^typ>\<open>nat\<close>.
  \<^item> \<^verbatim>\<open>Date.now()\<close> and \<^verbatim>\<open>Math.random()\<close> are inputs of every operation that reads
    them (record \<open>env\<close> below); an ISO time string is represented by its millisecond
    count.
  \<^item> Objects are records, arrays are lists, string-keyed dictionaries are maps.
    The one array that is shared between objects and mutated in place
    (\<^verbatim>\<open>currentData.events\<close>) lives in an explicit store.
\<close>

subsection \<open>Formation model\<close>

record FormationLayer =
  l_name :: string
  l_depth :: real
  l_thickness :: real
  l_porePressure :: real
  l_fracturePressure :: real
  l_permeability :: real
  l_lithology :: string
  l_kickRisk :: "real option"

text \<open>The object returned by \<^verbatim>\<open>getPropertiesAtDepth\<close>. The source never puts a
  \<^verbatim>\<open>kickRisk\<close> key into it, so a later read of \<^verbatim>\<open>formationProps.kickRisk\<close> is
  \<^verbatim>\<open>undefined\<close>; the field \<open>p_kickRisk\<close> records that as \<open>None\<close>.\<close>

record FormationProps =
  porePressure :: real
  fracturePressure :: real
  permeability :: real
  lithology :: string
  p_kickRisk :: "real option"

definition defaultProps :: FormationProps where
  "defaultProps = \<lparr> porePressure = 9.0, fracturePressure = 14.0, permeability = 0.1,
     lithology = ''sandstone'', p_kickRisk = None \<rparr>"

definition initializeDefaultLayers :: "FormationLayer list" where
  "initializeDefaultLayers =
    [ \<lparr> l_name = ''Topsoil'', l_depth = 0, l_thickness = 500, l_porePressure = 8.5,
        l_fracturePressure = 12.0, l_permeability = 0.01, l_lithology = ''sand'',
        l_kickRisk = None \<rparr>,
      \<lparr> l_name = ''Shale'', l_depth = 500, l_thickness = 1000, l_porePressure = 9.2,
        l_fracturePressure = 14.5, l_permeability = 0.001, l_lithology = ''shale'',
        l_kickRisk = None \<rparr>,
      \<lparr> l_name = ''Reservoir'', l_depth = 1500, l_thickness = 800, l_porePressure = 11.0,
        l_fracturePressure = 15.0, l_permeability = 0.5, l_lithology = ''sandstone'',
        l_kickRisk = None \<rparr>,
      \<lparr> l_name = ''Overpressured Zone'', l_depth = 2300, l_thickness = 500,
        l_porePressure = 14.0, l_fracturePressure = 16.5, l_permeability = 0.05,
        l_lithology = ''limestone'', l_kickRisk = None \<rparr> ]"

text \<open>\<^verbatim>\<open>Array.prototype.sort((a, b) => a.depth - b.depth)\<close> is a stable sort on the depth key;
  \<^const>\<open>sort_key\<close> is the stable insertion sort of the list library.\<close>

definition addLayer :: "FormationLayer \<Rightarrow> FormationLayer list \<Rightarrow> FormationLayer list" where
  "addLayer layer layers = sort_key l_depth (layers @ [layer])"

text \<open>\<^verbatim>\<open>findIndex\<close> followed by the assignment at that index: the first layer of that name
  is replaced.\<close>

fun replaceFirst :: "FormationLayer \<Rightarrow> FormationLayer list \<Rightarrow> FormationLayer list option" where
  "replaceFirst u [] = None"
| "replaceFirst u (l # ls) =
     (if l_name l = l_name u then Some (u # ls)
      else map_option (\<lambda>r. l # r) (replaceFirst u ls))"

definition updateLayer :: "FormationLayer \<Rightarrow> FormationLayer list \<Rightarrow> FormationLayer list" where
  "updateLayer updatedLayer layers =
     (case replaceFirst updatedLayer layers of
        None \<Rightarrow> layers
      | Some ls \<Rightarrow> sort_key l_depth ls)"

definition removeLayer :: "string \<Rightarrow> FormationLayer list \<Rightarrow> FormationLayer list" where
  "removeLayer layerName layers = filter (\<lambda>layer. l_name layer \<noteq> layerName) layers"

text \<open>The \<^verbatim>\<open>for\<close> loop of \<^verbatim>\<open>getLayerAtDepth\<close>: the first layer, in list order, whose
  half-open range holds the depth.\<close>

definition inLayer :: "real \<Rightarrow> FormationLayer \<Rightarrow> bool" where
  "inLayer d l \<longleftrightarrow> d \<ge> l_depth l \<and> d < l_depth l + l_thickness l"

fun scanLayers :: "real \<Rightarrow> FormationLayer list \<Rightarrow> FormationLayer option" where
  "scanLayers d [] = None"
| "scanLayers d (l # ls) = (if inLayer d l then Some l else scanLayers d ls)"

definition getLayerAtDepth :: "FormationLayer list \<Rightarrow> real \<Rightarrow> FormationLayer option" where
  "getLayerAtDepth layers d =
     (case scanLayers d layers of
        Some l \<Rightarrow> Some l
      | None \<Rightarrow>
          if layers \<noteq> [] \<and> d \<ge> l_depth (last layers) then Some (last layers) else None)"

fun scanIndex :: "real \<Rightarrow> nat \<Rightarrow> FormationLayer list \<Rightarrow> nat option" where
  "scanIndex d i [] = None"
| "scanIndex d i (l # ls) = (if inLayer d l then Some (i + 1) else scanIndex d (i + 1) ls)"

definition getLayerIndexAtDepth :: "FormationLayer list \<Rightarrow> real \<Rightarrow> nat" where
  "getLayerIndexAtDepth layers d =
     (case scanIndex d 0 layers of
        Some i \<Rightarrow> i
      | None \<Rightarrow> if layers \<noteq> [] \<and> d \<ge> l_depth (last layers) then length layers else 1)"

text \<open>\<^verbatim>\<open>depthInLayer / layer.thickness\<close>: for a layer of thickness zero JavaScript yields
  \<^verbatim>\<open>NaN\<close> or an infinity where HOL yields \<open>0\<close>; every statement below about this function
  is about a layer of positive thickness or about no layer.\<close>

definition getPropertiesAtDepth :: "FormationLayer list \<Rightarrow> real \<Rightarrow> FormationProps" where
  "getPropertiesAtDepth layers d =
     (case getLayerAtDepth layers d of
        None \<Rightarrow> defaultProps
      | Some layer \<Rightarrow>
          (let depthInLayer = d - l_depth layer;
               depthFactor = depthInLayer / l_thickness layer;
               porePressureGradient = 0.1;
               fracturePressureGradient = 0.15
           in \<lparr> porePressure = l_porePressure layer + depthFactor * porePressureGradient,
                fracturePressure = l_fracturePressure layer + depthFactor * fracturePressureGradient,
                permeability = l_permeability layer,
                lithology = l_lithology layer,
                p_kickRisk = None \<rparr>))"

subsection \<open>Data of the simulation engine\<close>

text \<open>Values that the source stores without a fixed type: the \<^verbatim>\<open>value\<close> of an action-log
  entry and the \<^verbatim>\<open>parameters\<close> of a timeline event.\<close>

datatype jsval = Num real | Str string | Null | Obj "(string \<times> jsval) list"

text \<open>A template literal is kept as its pieces. \<open>Fixed n x\<close> stands for
  \<^verbatim>\<open>x.toFixed(n)\<close> and \<open>Whole i\<close> for the decimal rendering of an integer.\<close>

datatype piece = Lit string | Fixed nat real | Whole int

type_synonym template = "piece list"

text \<open>The reading of the outside world taken by one call: the wall clock in milliseconds,
  the draw of \<^verbatim>\<open>Math.random()\<close> that is compared with the kick probability, and the value
  of \<^verbatim>\<open>Math.floor(Math.random() * 1000)\<close> that ends the id of a new timeline event.\<close>

record env =
  now :: nat
  rnd :: real
  rid :: nat

record SimEvent =
  e_type :: string
  e_time :: nat
  e_depth :: real
  e_layer :: nat
  e_severity :: string
  e_description :: string

record TimelineEvent =
  t_type :: string
  t_time :: nat
  t_description :: template
  t_severity :: string
  t_parameters :: "(string \<times> jsval) list"
  t_id :: string

text \<open>\<^verbatim>\<open>currentData\<close>. Its \<^verbatim>\<open>events\<close> field holds a reference to an array; the arrays
  themselves are in the engine's store \<open>arrays\<close>, because \<^verbatim>\<open>{ ...this.currentData }\<close> copies
  the reference and later \<^verbatim>\<open>push\<close>es are seen through every copy.\<close>

record SimulationState =
  rop :: real
  pumpPressure :: real
  pitLevel :: real
  standpipePressure :: real
  gasLevel :: real
  bitDepth :: real
  hookload :: real
  mudWeight :: real
  mudTemperature :: real
  formationPressure :: real
  annularPressure :: real
  torque :: real
  rpm :: real
  chokePosition :: real
  bopStatus :: string
  events :: nat

record ControlState =
  c_rop :: real
  c_pumpRate :: real
  c_rotarySpeed :: real
  c_mudWeight :: real
  c_chokePosition :: real
  c_bopStatus :: string
  c_hookPosition :: real
  c_drawworks :: string

text \<open>The argument of \<^verbatim>\<open>setControls\<close> is an object with some of the keys of the control
  state: a list of key/value settings in the object's key order (keys distinct).\<close>

datatype ctl =
    Rop real | PumpRate real | RotarySpeed real | MudWeight real | ChokePosition real
  | BopStatus string | HookPosition real | Drawworks string

record EquipmentStatus =
  pumps_health :: real
  pumps_overuseDuration :: real
  drillString_health :: real
  drillString_vibration :: real
  drillString_torque :: real
  bop_health :: real
  bop_lastClosed :: real

record TrippingStatus =
  isTripping :: bool
  direction :: string
  tr_speed :: real
  lastDepth :: real
  lastTime :: nat

record ActionParams =
  ap_rop :: real
  ap_pumpPressure :: real
  ap_pitLevel :: real
  ap_gasLevel :: real
  ap_mudWeight :: real

record Action =
  a_action :: string
  a_value :: jsval
  a_time :: nat
  a_depth :: real
  a_parameters :: ActionParams

record LogEntry =
  lg_time :: nat
  lg_depth :: real
  lg_rop :: real
  lg_pumpPressure :: real
  lg_standpipePressure :: real
  lg_pitLevel :: real
  lg_gasLevel :: real
  lg_mudWeight :: real
  lg_formationPressure :: real
  lg_annularPressure :: real
  lg_torque :: real
  lg_rpm :: real
  lg_hookload :: real

record MissedWarning =
  mw_warning :: string
  mw_time :: "nat option"
  mw_requiredAction :: string
  mw_timeAllowed :: string

record TransitionProps =
  tp_lithology :: string
  tp_porePressure :: real
  tp_fracturePressure :: real
  tp_permeability :: real
  tp_kickRisk :: real

record Transition =
  ft_time :: nat
  ft_depth :: real
  ft_fromFormation :: string
  ft_toFormation :: string
  ft_properties :: TransitionProps

record CheckpointState =
  s_currentData :: SimulationState
  s_controls :: ControlState
  s_equipmentStatus :: EquipmentStatus
  s_casingDepth :: real
  s_simulationTime :: nat

record Checkpoint =
  cp_id :: string
  cp_name :: template
  cp_timestamp :: nat
  cp_depth :: real
  cp_automatic :: bool
  cp_state :: CheckpointState

text \<open>Every call of \<^verbatim>\<open>triggerGameOver\<close> passes a literal \<^verbatim>\<open>details\<close> object (description,
  consequence, prevention tips) fixed by the call site; the constructor names the site.
  The site inside \<^verbatim>\<open>getRiskLevel\<close> chooses its description by the risk type.\<close>

datatype details =
    MudPitDepletion | BlowoutEvent | FormationBreakdown | H2SExposure | UncontrolledGasInflux
  | PumpFailure | DrillStringFailure | BOPFailure | WellboreCollapse
  | RiskFailure "string option"

record GameOverParams =
  gp_rop :: real
  gp_pumpPressure :: real
  gp_pitLevel :: real
  gp_gasLevel :: real
  gp_mudWeight :: real
  gp_standpipePressure :: real
  gp_annularPressure :: real
  gp_formationPressure :: real

record GameOverRecord =
  g_details :: details
  g_time :: nat
  g_depth :: real
  g_elapsedTime :: real
  g_parameters :: GameOverParams
  g_missedWarnings :: "MissedWarning list"
  g_actionLog :: "Action list"

text \<open>The private fields of \<^verbatim>\<open>SimulationEngine\<close>. The attached \<^verbatim>\<open>FormationModel\<close> is
  represented by its layer list; \<^verbatim>\<open>simulationInterval\<close> by the period of the armed timer;
  \<^verbatim>\<open>gameOverDetails\<close> is \<open>None\<close> for the empty object. The constants
  \<^verbatim>\<open>riskDecayRate\<close> and \<^verbatim>\<open>formationData\<close> are never written and are left out.\<close>

record Engine =
  running :: bool
  paused :: bool
  speed :: real
  trainingMode :: bool
  wellType :: string
  formation :: "FormationLayer list option"
  simulationInterval :: "real option"
  simulationTime :: nat
  elapsedTime :: real
  currentData :: SimulationState
  arrays :: "nat \<Rightarrow> SimEvent list"
  nextArray :: nat
  controls :: ControlState
  logData :: "LogEntry list"
  eventLog :: "SimEvent list"
  scenario :: string
  gameOver :: bool
  gameOverReason :: string
  gameOverDetails :: "GameOverRecord option"
  warningTimers :: "string \<rightharpoonup> nat"
  warningTimestamps :: "string \<rightharpoonup> nat"
  missedWarnings :: "MissedWarning list"
  actionLog :: "Action list"
  equipmentStatus :: EquipmentStatus
  casingDepth :: real
  lastCasingRun :: nat
  trippingStatus :: TrippingStatus
  checkpoints :: "Checkpoint list"
  timelineEvents :: "TimelineEvent list"
  lastRiskLevel :: real
  riskDecaying :: bool
  formationTransitions :: "Transition list"
  lastFormationDepth :: real
  currentFormation :: "FormationLayer option"
  bopActivations :: nat
  kicksHandled :: nat
  targetDepth :: real
  previousGasLevel :: real

subsection \<open>Helpers\<close>

text \<open>Decimal rendering of a natural number, for the ids built from \<^verbatim>\<open>Date.now()\<close>.\<close>

function string_of_nat :: "nat \<Rightarrow> string" where
  "string_of_nat n =
     (if n < 10 then [''0123456789'' ! n]
      else string_of_nat (n div 10) @ [''0123456789'' ! (n mod 10)])"
  by pat_completeness auto
termination
  by (relation "measure id") auto

text \<open>\<^verbatim>\<open>xs.slice(-n)\<close>: the last \<open>n\<close> elements.\<close>

definition lastN :: "nat \<Rightarrow> 'a list \<Rightarrow> 'a list" where
  "lastN n xs = drop (length xs - n) xs"

text \<open>Truthiness of \<^verbatim>\<open>this.warningTimers[key]\<close>: a missing key and the number 0 are falsy.\<close>

definition timerSet :: "(string \<rightharpoonup> nat) \<Rightarrow> string \<Rightarrow> bool" where
  "timerSet m k = (case m k of None \<Rightarrow> False | Some t \<Rightarrow> t \<noteq> 0)"

text \<open>\<^verbatim>\<open>x || d\<close> for an optional number: \<^verbatim>\<open>undefined\<close> and 0 give the default.\<close>

definition orDefault :: "real option \<Rightarrow> real \<Rightarrow> real" where
  "orDefault x d = (case x of None \<Rightarrow> d | Some k \<Rightarrow> if k = 0 then d else k)"

text \<open>\<^verbatim>\<open>Math.round\<close>.\<close>

definition jsRound :: "real \<Rightarrow> int" where
  "jsRound x = \<lfloor>x + 1 / 2\<rfloor>"

subsection \<open>Queries of the engine on its formation\<close>

definition engineLayerIndexAtDepth :: "Engine \<Rightarrow> real \<Rightarrow> nat" where
  "engineLayerIndexAtDepth s d =
     (case formation s of None \<Rightarrow> 1 | Some layers \<Rightarrow> getLayerIndexAtDepth layers d)"

definition getFormationPropertiesAtDepth :: "Engine \<Rightarrow> real \<Rightarrow> FormationProps" where
  "getFormationPropertiesAtDepth s d =
     (case formation s of None \<Rightarrow> defaultProps | Some layers \<Rightarrow> getPropertiesAtDepth layers d)"

subsection \<open>Logs, timeline and the terminal transition\<close>

text \<open>\<^verbatim>\<open>this.eventLog.push(e); this.currentData.events.push(e)\<close>.\<close>

definition pushEvent :: "SimEvent \<Rightarrow> Engine \<Rightarrow> Engine" where
  "pushEvent e s =
     s\<lparr> eventLog := eventLog s @ [e],
        arrays := (arrays s)(events (currentData s) := arrays s (events (currentData s)) @ [e]) \<rparr>"

definition addTimelineEvent :: "env \<Rightarrow> TimelineEvent \<Rightarrow> Engine \<Rightarrow> Engine" where
  "addTimelineEvent en event s =
     (let event' = (if t_id event = []
                    then event\<lparr> t_id := ''event_'' @ string_of_nat (now en) @ ''_'' @ string_of_nat (rid en) \<rparr>
                    else event);
          pushed = timelineEvents s @ [event']
      in s\<lparr> timelineEvents := (if length pushed > 100 then lastN 100 pushed else pushed) \<rparr>)"

definition logAction :: "env \<Rightarrow> string \<Rightarrow> jsval \<Rightarrow> Engine \<Rightarrow> Engine" where
  "logAction en action v s =
     s\<lparr> actionLog := actionLog s @
        [\<lparr> a_action = action, a_value = v, a_time = now en,
           a_depth = bitDepth (currentData s),
           a_parameters = \<lparr> ap_rop = rop (currentData s),
                            ap_pumpPressure = pumpPressure (currentData s),
                            ap_pitLevel = pitLevel (currentData s),
                            ap_gasLevel = gasLevel (currentData s),
                            ap_mudWeight = mudWeight (currentData s) \<rparr> \<rparr>] \<rparr>"

definition pause :: "Engine \<Rightarrow> Engine" where
  "pause s = s\<lparr> paused := True \<rparr>"

definition resume :: "Engine \<Rightarrow> Engine" where
  "resume s = s\<lparr> paused := False \<rparr>"

definition triggerGameOver :: "env \<Rightarrow> string \<Rightarrow> details \<Rightarrow> Engine \<Rightarrow> Engine" where
  "triggerGameOver en reason dt s =
     (if gameOver s then s
      else
        let s1 = s\<lparr> gameOver := True, gameOverReason := reason,
                   gameOverDetails := Some
                     \<lparr> g_details = dt, g_time = now en,
                       g_depth = bitDepth (currentData s),
                       g_elapsedTime = elapsedTime s,
                       g_parameters =
                         \<lparr> gp_rop = rop (currentData s),
                           gp_pumpPressure = pumpPressure (currentData s),
                           gp_pitLevel = pitLevel (currentData s),
                           gp_gasLevel = gasLevel (currentData s),
                           gp_mudWeight = mudWeight (currentData s),
                           gp_standpipePressure = standpipePressure (currentData s),
                           gp_annularPressure = annularPressure (currentData s),
                           gp_formationPressure = formationPressure (currentData s) \<rparr>,
                       g_missedWarnings = missedWarnings s,
                       g_actionLog = lastN 20 (actionLog s) \<rparr> \<rparr>;
            gameOverEvent =
              \<lparr> e_type = ''gameOver'', e_time = now en,
                e_depth = bitDepth (currentData s1),
                e_layer = engineLayerIndexAtDepth s1 (bitDepth (currentData s1)),
                e_severity = ''critical'',
                e_description = ''GAME OVER: '' @ reason \<rparr>
        in pause (pushEvent gameOverEvent s1))"

subsection \<open>Clock control, reset and configuration\<close>

definition start :: "Engine \<Rightarrow> Engine" where
  "start s =
     (if running s then s
      else s\<lparr> running := True, paused := False, simulationInterval := Some (1000 / speed s) \<rparr>)"

definition stop :: "Engine \<Rightarrow> Engine" where
  "stop s = s\<lparr> running := False, paused := False, simulationInterval := None \<rparr>"

definition initialEquipment :: EquipmentStatus where
  "initialEquipment =
     \<lparr> pumps_health = 100, pumps_overuseDuration = 0,
       drillString_health = 100, drillString_vibration = 0, drillString_torque = 0,
       bop_health = 100, bop_lastClosed = 0 \<rparr>"

definition initialTripping :: TrippingStatus where
  "initialTripping =
     \<lparr> isTripping = False, direction = ''none'', tr_speed = 0, lastDepth = 0, lastTime = 0 \<rparr>"

definition initialControls :: ControlState where
  "initialControls =
     \<lparr> c_rop = 50, c_pumpRate = 50, c_rotarySpeed = 60, c_mudWeight = 10,
       c_chokePosition = 0, c_bopStatus = ''closed'', c_hookPosition = 0,
       c_drawworks = ''locked'' \<rparr>"

text \<open>The literal assigned to \<^verbatim>\<open>currentData\<close>; its \<^verbatim>\<open>events: []\<close> is a new array, whose
  reference is the argument.\<close>

definition initialData :: "nat \<Rightarrow> SimulationState" where
  "initialData r =
     \<lparr> rop = 0, pumpPressure = 0, pitLevel = 50, standpipePressure = 0, gasLevel = 0,
       bitDepth = 0, hookload = 250, mudWeight = 10.0, mudTemperature = 120,
       formationPressure = 0, annularPressure = 0, torque = 0, rpm = 0,
       chokePosition = 0, bopStatus = ''closed'', events = r \<rparr>"

definition resetGameOver :: "Engine \<Rightarrow> Engine" where
  "resetGameOver s =
     s\<lparr> gameOver := False, gameOverReason := [], gameOverDetails := None,
        missedWarnings := [], actionLog := [],
        warningTimers := Map.empty, warningTimestamps := Map.empty,
        equipmentStatus := initialEquipment,
        casingDepth := 0, lastCasingRun := 0,
        trippingStatus := initialTripping \<rparr>"

definition reset :: "Engine \<Rightarrow> Engine" where
  "reset s =
     (let s1 = resetGameOver (stop s)
      in s1\<lparr> simulationTime := 0, elapsedTime := 0,
             currentData := initialData (nextArray s1),
             arrays := (arrays s1)(nextArray s1 := []),
             nextArray := nextArray s1 + 1,
             controls := initialControls,
             logData := [], eventLog := [], timelineEvents := [],
             formationTransitions := [], lastFormationDepth := 0,
             currentFormation := None, lastRiskLevel := 0, riskDecaying := False \<rparr>)"

text \<open>The state built by the field initialisers of the class, before the constructor body
  runs; array 0 is the \<^verbatim>\<open>events\<close> array of the initial \<^verbatim>\<open>currentData\<close> literal.\<close>

definition fieldInitialisers :: Engine where
  "fieldInitialisers =
     \<lparr> running = False, paused = False, speed = 1, trainingMode = True,
       wellType = ''vertical'', formation = None, simulationInterval = None,
       simulationTime = 0, elapsedTime = 0, currentData = initialData 0,
       arrays = (\<lambda>_. []), nextArray = 1, controls = initialControls,
       logData = [], eventLog = [], scenario = ''normal'', gameOver = False,
       gameOverReason = [], gameOverDetails = None, warningTimers = Map.empty,
       warningTimestamps = Map.empty, missedWarnings = [], actionLog = [],
       equipmentStatus = initialEquipment, casingDepth = 0, lastCasingRun = 0,
       trippingStatus = initialTripping, checkpoints = [], timelineEvents = [],
       lastRiskLevel = 0, riskDecaying = False, formationTransitions = [],
       lastFormationDepth = 0, currentFormation = None, bopActivations = 0,
       kicksHandled = 0, targetDepth = 0, previousGasLevel = 0 \<rparr>"

text \<open>\<^verbatim>\<open>constructor() { this.reset(); this.checkpoints = []; this.timelineEvents = [];
  this.formationTransitions = [] }\<close>.\<close>

definition newEngine :: Engine where
  "newEngine = (reset fieldInitialisers)\<lparr> checkpoints := [], timelineEvents := [],
                 formationTransitions := [] \<rparr>"

definition setSpeed :: "real \<Rightarrow> Engine \<Rightarrow> Engine" where
  "setSpeed v s =
     (let s1 = s\<lparr> speed := v \<rparr>
      in if running s1 \<and> \<not> paused s1 then start (stop s1) else s1)"

definition setTrainingMode :: "bool \<Rightarrow> Engine \<Rightarrow> Engine" where
  "setTrainingMode m s = s\<lparr> trainingMode := m \<rparr>"

definition setWellType :: "string \<Rightarrow> Engine \<Rightarrow> Engine" where
  "setWellType t s = s\<lparr> wellType := t \<rparr>"

definition setTargetDepth :: "real \<Rightarrow> Engine \<Rightarrow> Engine" where
  "setTargetDepth d s = s\<lparr> targetDepth := d \<rparr>"

text \<open>\<^verbatim>\<open>setFormation\<close> writes a missing \<^verbatim>\<open>kickRisk\<close> into the layer objects of the
  attached model.\<close>

definition backfillKickRisk :: "FormationLayer \<Rightarrow> FormationLayer" where
  "backfillKickRisk layer =
     (if l_kickRisk layer = None then
        let basePressure = 9.0;
            pressureFactor = max 0 ((l_porePressure layer - basePressure) / 5);
            permeabilityFactor = min 1 (l_permeability layer * 2)
        in layer\<lparr> l_kickRisk := Some (min 0.8 (pressureFactor * 0.7 + permeabilityFactor * 0.3)) \<rparr>
      else layer)"

definition setFormation :: "FormationLayer list option \<Rightarrow> Engine \<Rightarrow> Engine" where
  "setFormation f s = s\<lparr> formation := map_option (map backfillKickRisk) f \<rparr>"

subsection \<open>Control input\<close>

fun ctl_key :: "ctl \<Rightarrow> string" where
  "ctl_key (Rop v) = ''rop''"
| "ctl_key (PumpRate v) = ''pumpRate''"
| "ctl_key (RotarySpeed v) = ''rotarySpeed''"
| "ctl_key (MudWeight v) = ''mudWeight''"
| "ctl_key (ChokePosition v) = ''chokePosition''"
| "ctl_key (BopStatus v) = ''bopStatus''"
| "ctl_key (HookPosition v) = ''hookPosition''"
| "ctl_key (Drawworks v) = ''drawworks''"

fun ctl_val :: "ctl \<Rightarrow> jsval" where
  "ctl_val (Rop v) = Num v"
| "ctl_val (PumpRate v) = Num v"
| "ctl_val (RotarySpeed v) = Num v"
| "ctl_val (MudWeight v) = Num v"
| "ctl_val (ChokePosition v) = Num v"
| "ctl_val (BopStatus v) = Str v"
| "ctl_val (HookPosition v) = Num v"
| "ctl_val (Drawworks v) = Str v"

text \<open>\<^verbatim>\<open>this.controls[key]\<close> for the key of a setting.\<close>

fun ctl_current :: "ControlState \<Rightarrow> ctl \<Rightarrow> jsval" where
  "ctl_current c (Rop v) = Num (c_rop c)"
| "ctl_current c (PumpRate v) = Num (c_pumpRate c)"
| "ctl_current c (RotarySpeed v) = Num (c_rotarySpeed c)"
| "ctl_current c (MudWeight v) = Num (c_mudWeight c)"
| "ctl_current c (ChokePosition v) = Num (c_chokePosition c)"
| "ctl_current c (BopStatus v) = Str (c_bopStatus c)"
| "ctl_current c (HookPosition v) = Num (c_hookPosition c)"
| "ctl_current c (Drawworks v) = Str (c_drawworks c)"

fun ctl_apply :: "ControlState \<Rightarrow> ctl \<Rightarrow> ControlState" where
  "ctl_apply c (Rop v) = c\<lparr> c_rop := v \<rparr>"
| "ctl_apply c (PumpRate v) = c\<lparr> c_pumpRate := v \<rparr>"
| "ctl_apply c (RotarySpeed v) = c\<lparr> c_rotarySpeed := v \<rparr>"
| "ctl_apply c (MudWeight v) = c\<lparr> c_mudWeight := v \<rparr>"
| "ctl_apply c (ChokePosition v) = c\<lparr> c_chokePosition := v \<rparr>"
| "ctl_apply c (BopStatus v) = c\<lparr> c_bopStatus := v \<rparr>"
| "ctl_apply c (HookPosition v) = c\<lparr> c_hookPosition := v \<rparr>"
| "ctl_apply c (Drawworks v) = c\<lparr> c_drawworks := v \<rparr>"

text \<open>\<^verbatim>\<open>controls.bopStatus\<close> of the argument object.\<close>

fun requestedBop :: "ctl list \<Rightarrow> string option" where
  "requestedBop [] = None"
| "requestedBop (BopStatus b # cs) = Some b"
| "requestedBop (c # cs) = requestedBop cs"

definition setControls :: "env \<Rightarrow> ctl list \<Rightarrow> Engine \<Rightarrow> Engine" where
  "setControls en cs s =
     (let s1 = (if c_bopStatus (controls s) = ''open'' \<and> requestedBop cs = Some ''closed''
                then addTimelineEvent en
                       \<lparr> t_type = ''bopActivation'', t_time = now en,
                         t_description = [Lit ''BOP activated''], t_severity = ''info'',
                         t_parameters = [(''depth'', Num (bitDepth (currentData s))),
                                         (''gasLevel'', Num (gasLevel (currentData s)))],
                         t_id = [] \<rparr>
                       (s\<lparr> bopActivations := bopActivations s + 1 \<rparr>)
                else s);
          s2 = foldl (\<lambda>st c. if ctl_current (controls s) c \<noteq> ctl_val c
                              then logAction en (''Changed '' @ ctl_key c) (ctl_val c) st
                              else st) s1 cs
      in s2\<lparr> controls := foldl ctl_apply (controls s) cs \<rparr>)"

definition runCasing :: "env \<Rightarrow> Engine \<Rightarrow> Engine" where
  "runCasing en s =
     (let s1 = s\<lparr> casingDepth := bitDepth (currentData s), lastCasingRun := simulationTime s \<rparr>
      in logAction en ''Run Casing'' (Num (casingDepth s1)) s1)"

definition startTripping :: "env \<Rightarrow> string \<Rightarrow> real \<Rightarrow> Engine \<Rightarrow> Engine" where
  "startTripping en dir v s =
     logAction en ''Start Tripping'' (Obj [(''direction'', Str dir), (''speed'', Num v)])
       (s\<lparr> trippingStatus :=
             \<lparr> isTripping = True, direction = dir, tr_speed = v,
               lastDepth = bitDepth (currentData s), lastTime = simulationTime s \<rparr> \<rparr>)"

definition stopTripping :: "env \<Rightarrow> Engine \<Rightarrow> Engine" where
  "stopTripping en s =
     logAction en ''Stop Tripping'' Null
       (s\<lparr> trippingStatus := (trippingStatus s)\<lparr> isTripping := False, direction := ''none'' \<rparr> \<rparr>)"

subsection \<open>Getters\<close>

text \<open>\<^verbatim>\<open>getCurrentData\<close> returns \<^verbatim>\<open>{ ...this.currentData }\<close>: the same field values, the
  \<^verbatim>\<open>events\<close> reference included.\<close>

definition getCurrentData :: "Engine \<Rightarrow> SimulationState" where
  "getCurrentData s = currentData s"

definition isGameOver :: "Engine \<Rightarrow> bool" where
  "isGameOver s = gameOver s"

definition getEventLog :: "Engine \<Rightarrow> SimEvent list" where
  "getEventLog s = eventLog s"

definition getLogData :: "Engine \<Rightarrow> LogEntry list" where
  "getLogData s = logData s"

definition getTimelineEvents :: "Engine \<Rightarrow> TimelineEvent list" where
  "getTimelineEvents s = timelineEvents s"

definition getCheckpoints :: "Engine \<Rightarrow> Checkpoint list" where
  "getCheckpoints s = checkpoints s"

subsection \<open>Checkpoints\<close>

text \<open>\<^verbatim>\<open>createCheckpoint\<close> returns the new checkpoint; the model returns it with the new
  state. \<^verbatim>\<open>{ ...this.currentData }\<close> and \<^verbatim>\<open>{ ...this.controls }\<close> copy the fields (the
  \<^verbatim>\<open>events\<close> reference stays shared), the JSON round trip copies the equipment status.\<close>

definition createCheckpoint :: "env \<Rightarrow> bool \<Rightarrow> Engine \<Rightarrow> Checkpoint \<times> Engine" where
  "createCheckpoint en automatic s =
     (let checkpointId = ''cp_'' @ string_of_nat (now en);
          timestamp = now en;
          depth = bitDepth (currentData s);
          checkpoint =
            \<lparr> cp_id = checkpointId,
              cp_name = (if automatic then [Lit ''Auto-save at '', Fixed 0 depth, Lit ''ft'']
                         else [Lit ''Checkpoint at '', Fixed 0 depth, Lit ''ft'']),
              cp_timestamp = timestamp, cp_depth = depth, cp_automatic = automatic,
              cp_state = \<lparr> s_currentData = currentData s, s_controls = controls s,
                           s_equipmentStatus = equipmentStatus s,
                           s_casingDepth = casingDepth s,
                           s_simulationTime = simulationTime s \<rparr> \<rparr>;
          pushed = checkpoints s @ [checkpoint];
          s1 = s\<lparr> checkpoints := (if length pushed > 10 then lastN 10 pushed else pushed) \<rparr>;
          s2 = (if \<not> automatic
                then addTimelineEvent en
                       \<lparr> t_type = ''checkpoint'', t_time = timestamp,
                         t_description = [Lit ''Checkpoint created at '', Fixed 0 depth, Lit ''ft''],
                         t_severity = ''info'',
                         t_parameters = [(''depth'', Num depth), (''id'', Str checkpointId)],
                         t_id = [] \<rparr> s1
                else s1)
      in (checkpoint, s2))"

text \<open>\<^verbatim>\<open>loadCheckpoint\<close> returns a boolean; the model returns it with the new state.
  \<^verbatim>\<open>this.checkpoints.find(...)\<close> is the first checkpoint with the id.\<close>

definition loadCheckpoint :: "env \<Rightarrow> string \<Rightarrow> Engine \<Rightarrow> bool \<times> Engine" where
  "loadCheckpoint en checkpointId s =
     (case find (\<lambda>cp. cp_id cp = checkpointId) (checkpoints s) of
        None \<Rightarrow> (False, s)
      | Some checkpoint \<Rightarrow>
          (let s1 = s\<lparr> currentData := s_currentData (cp_state checkpoint),
                       controls := s_controls (cp_state checkpoint),
                       equipmentStatus := s_equipmentStatus (cp_state checkpoint),
                       casingDepth := s_casingDepth (cp_state checkpoint),
                       simulationTime := s_simulationTime (cp_state checkpoint),
                       gameOver := False, gameOverReason := [], gameOverDetails := None \<rparr>
           in (True,
               addTimelineEvent en
                 \<lparr> t_type = ''checkpointLoaded'', t_time = now en,
                   t_description = Lit ''Checkpoint loaded: '' # cp_name checkpoint,
                   t_severity = ''info'',
                   t_parameters = [(''depth'', Num (cp_depth checkpoint)),
                                   (''id'', Str checkpointId)],
                   t_id = [] \<rparr> s1)))"

subsection \<open>Time-series log\<close>

definition addToLogs :: "env \<Rightarrow> Engine \<Rightarrow> Engine" where
  "addToLogs en s =
     (let logEntry =
            \<lparr> lg_time = now en, lg_depth = bitDepth (currentData s),
              lg_rop = rop (currentData s),
              lg_pumpPressure = pumpPressure (currentData s),
              lg_standpipePressure = standpipePressure (currentData s),
              lg_pitLevel = pitLevel (currentData s),
              lg_gasLevel = gasLevel (currentData s),
              lg_mudWeight = mudWeight (currentData s),
              lg_formationPressure = formationPressure (currentData s),
              lg_annularPressure = annularPressure (currentData s),
              lg_torque = torque (currentData s),
              lg_rpm = rpm (currentData s),
              lg_hookload = hookload (currentData s) \<rparr>;
          pushed = logData s @ [logEntry]
      in s\<lparr> logData := (if length pushed > 1000 then lastN 1000 pushed else pushed) \<rparr>)"

subsection \<open>Mechanics and hydraulics formulas\<close>

definition calculateTorque :: "real \<Rightarrow> FormationProps \<Rightarrow> real" where
  "calculateTorque rotarySpeed formationProps =
     (let baseTorque = rotarySpeed * 0.5;
          formationFactor = (if lithology formationProps = ''limestone''
                                \<or> lithology formationProps = ''dolomite'' then 1.5 else 1.0)
      in baseTorque * formationFactor)"

definition calculateHookload :: "real \<Rightarrow> string \<Rightarrow> real" where
  "calculateHookload depth wt =
     (let baseHookload = 100 + depth * 0.05;
          wellTypeFactor = (if wt = ''deviated'' then 1.2
                            else if wt = ''horizontal'' then 1.5 else 1.0)
      in baseHookload * wellTypeFactor)"

definition calculatePumpPressure :: "real \<Rightarrow> real \<Rightarrow> real" where
  "calculatePumpPressure pumpRate depth =
     (let basePressure = pumpRate * 3;
          depthFactor = 1 + (depth / 10000) * 0.5
      in basePressure * depthFactor)"

definition calculateStandpipePressure :: "real \<Rightarrow> real \<Rightarrow> real" where
  "calculateStandpipePressure pp choke =
     (let chokeFactor = 1 + (choke / 100) * 0.5 in pp * chokeFactor)"

definition calculateAnnularPressure :: "real \<Rightarrow> real \<Rightarrow> real" where
  "calculateAnnularPressure sp depth =
     (let depthFactor = max 0.5 (1 - depth / 20000) in sp * depthFactor)"

definition calculateVibration :: "Engine \<Rightarrow> real" where
  "calculateVibration s =
     (let baseVibration = c_rotarySpeed (controls s) * 0.5;
          ropFactor = c_rop (controls s) / 50;
          formationProps = getFormationPropertiesAtDepth s (bitDepth (currentData s));
          formationFactor = (if lithology formationProps = ''limestone''
                                \<or> lithology formationProps = ''dolomite'' then 1.5 else 1.0);
          depthFactor = 1 + (bitDepth (currentData s) / 10000) * 0.5
      in min 100 (baseVibration * ropFactor * formationFactor * depthFactor))"

subsection \<open>Formation transitions\<close>

definition checkFormationTransition :: "env \<Rightarrow> real \<Rightarrow> Engine \<Rightarrow> Engine" where
  "checkFormationTransition en depth s =
     (case formation s of
        None \<Rightarrow> s
      | Some layers \<Rightarrow>
          (let s1 =
             (case getLayerAtDepth layers depth of
                None \<Rightarrow> s
              | Some currentLayer \<Rightarrow>
                  (if (case currentFormation s of None \<Rightarrow> True
                       | Some f \<Rightarrow> l_name f \<noteq> l_name currentLayer)
                   then
                     let transition =
                           \<lparr> ft_time = now en, ft_depth = depth,
                             ft_fromFormation =
                               (case currentFormation s of None \<Rightarrow> ''Surface''
                                | Some f \<Rightarrow> l_name f),
                             ft_toFormation = l_name currentLayer,
                             ft_properties =
                               \<lparr> tp_lithology = l_lithology currentLayer,
                                 tp_porePressure = l_porePressure currentLayer,
                                 tp_fracturePressure = l_fracturePressure currentLayer,
                                 tp_permeability = l_permeability currentLayer,
                                 tp_kickRisk = orDefault (l_kickRisk currentLayer) 0.1 \<rparr> \<rparr>
                     in addTimelineEvent en
                          \<lparr> t_type = ''formationTransition'', t_time = now en,
                            t_description =
                              [Lit ''Entered '', Lit (l_name currentLayer),
                               Lit '' formation at '', Fixed 0 depth, Lit ''ft''],
                            t_severity = ''info'',
                            t_parameters =
                              [(''depth'', Num depth),
                               (''lithology'', Str (l_lithology currentLayer)),
                               (''porePressure'', Num (l_porePressure currentLayer)),
                               (''fracturePressure'', Num (l_fracturePressure currentLayer))],
                            t_id = [] \<rparr>
                          (s\<lparr> formationTransitions := formationTransitions s @ [transition],
                              currentFormation := Some currentLayer \<rparr>)
                   else s))
           in s1\<lparr> lastFormationDepth := depth \<rparr>))"

subsection \<open>Warnings\<close>

text \<open>The source repeats one idiom for every warning kind: when the timer of the kind is
  not set, it stores the tick and the wall clock under the kind's key and pushes an event
  of that type onto the event log and onto \<^verbatim>\<open>currentData.events\<close>. \<open>announce\<close> is the body
  of that \<^verbatim>\<open>if\<close>; the test stays at each place of use.\<close>

definition warningEvent :: "env \<Rightarrow> Engine \<Rightarrow> string \<Rightarrow> string \<Rightarrow> string \<Rightarrow> SimEvent" where
  "warningEvent en s ty sev descr =
     \<lparr> e_type = ty, e_time = now en, e_depth = bitDepth (currentData s),
       e_layer = engineLayerIndexAtDepth s (bitDepth (currentData s)),
       e_severity = sev, e_description = descr \<rparr>"

definition armTimer :: "env \<Rightarrow> string \<Rightarrow> Engine \<Rightarrow> Engine" where
  "armTimer en k s =
     s\<lparr> warningTimers := (warningTimers s)(k \<mapsto> simulationTime s),
        warningTimestamps := (warningTimestamps s)(k \<mapsto> now en) \<rparr>"

definition clearTimer :: "string \<Rightarrow> Engine \<Rightarrow> Engine" where
  "clearTimer k s = s\<lparr> warningTimers := (warningTimers s)(k \<mapsto> 0) \<rparr>"

definition announce :: "env \<Rightarrow> string \<Rightarrow> string \<Rightarrow> string \<Rightarrow> Engine \<Rightarrow> Engine" where
  "announce en k sev descr s =
     (let s1 = armTimer en k s in pushEvent (warningEvent en s1 k sev descr) s1)"

subsection \<open>Event detector\<close>

text \<open>\<^verbatim>\<open>checkForEvents\<close> is two independent blocks, modelled as \<open>checkKick\<close> followed by
  \<open>checkLostCirculation\<close>. The source computes \<^verbatim>\<open>hydrostaticPressure\<close> once, before the
  kick block changes gas and pit level; mud weight and bit depth are not changed by that
  block, so \<open>checkKick\<close> computes the same value.\<close>

definition kickInflux :: "real \<Rightarrow> Engine \<Rightarrow> Engine" where
  "kickInflux pressureDifferential s =
     s\<lparr> currentData := (currentData s)
          \<lparr> gasLevel := gasLevel (currentData s) + pressureDifferential * 0.1,
            pitLevel := pitLevel (currentData s) + pressureDifferential * 0.05 \<rparr> \<rparr>"

definition warnKick :: "env \<Rightarrow> FormationProps \<Rightarrow> real \<Rightarrow> Engine \<Rightarrow> Engine" where
  "warnKick en formationProps hydrostaticPressure s =
     (if \<not> timerSet (warningTimers s) ''kick''
      then
        let s1 = announce en ''kick'' ''warning''
                   ''Potential kick detected - formation pressure exceeds hydrostatic pressure'' s
        in addTimelineEvent en
             \<lparr> t_type = ''kickDetected'', t_time = now en,
               t_description =
                 [Lit ''Kick detected at '', Fixed 0 (bitDepth (currentData s1)),
                  Lit ''ft - formation pressure: '',
                  Fixed 1 (porePressure formationProps), Lit '' ppg''],
               t_severity = ''critical'',
               t_parameters =
                 [(''depth'', Num (bitDepth (currentData s1))),
                  (''formationPressure'', Num (porePressure formationProps)),
                  (''hydrostaticPressure'', Num hydrostaticPressure),
                  (''mudWeight'', Num (mudWeight (currentData s1)))],
               t_id = [] \<rparr> s1
      else s)"

definition checkKick :: "env \<Rightarrow> FormationProps \<Rightarrow> Engine \<Rightarrow> Engine" where
  "checkKick en formationProps s =
     (let hydrostaticPressure = mudWeight (currentData s) * 0.052 * bitDepth (currentData s)
      in if bitDepth (currentData s) > 500
            \<and> porePressure formationProps > hydrostaticPressure
            \<and> pitLevel (currentData s) < 100
         then
           let pressureDifferential = porePressure formationProps - hydrostaticPressure;
               formationKickRisk = orDefault (p_kickRisk formationProps) 0.2;
               kickProbability = min 1 (pressureDifferential * 0.1 * formationKickRisk)
           in if rnd en < kickProbability
              then warnKick en formationProps hydrostaticPressure
                     (kickInflux pressureDifferential s)
              else s
         else clearTimer ''kick'' s)"

definition lossRateOf :: "FormationProps \<Rightarrow> Engine \<Rightarrow> real" where
  "lossRateOf formationProps s =
     max ((mudWeight (currentData s) - fracturePressure formationProps) * 2)
         ((standpipePressure (currentData s) - fracturePressure formationProps * 150) * 0.01)"

definition loseMud :: "real \<Rightarrow> Engine \<Rightarrow> Engine" where
  "loseMud lossRate s =
     s\<lparr> currentData := (currentData s)
          \<lparr> pitLevel := pitLevel (currentData s) - lossRate * 0.1 \<rparr> \<rparr>"

definition warnLostCirculation :: "env \<Rightarrow> FormationProps \<Rightarrow> Engine \<Rightarrow> Engine" where
  "warnLostCirculation en formationProps s =
     (if \<not> timerSet (warningTimers s) ''lostCirculation''
      then
        let s1 = announce en ''lostCirculation'' ''warning''
                   ''Lost circulation detected - formation fracture pressure exceeded'' s
        in addTimelineEvent en
             \<lparr> t_type = ''lostCirculation'', t_time = now en,
               t_description =
                 [Lit ''Lost circulation at '', Fixed 0 (bitDepth (currentData s1)),
                  Lit ''ft - fracture pressure: '',
                  Fixed 1 (fracturePressure formationProps), Lit '' ppg''],
               t_severity = ''warning'',
               t_parameters =
                 [(''depth'', Num (bitDepth (currentData s1))),
                  (''fracturePressure'', Num (fracturePressure formationProps)),
                  (''mudWeight'', Num (mudWeight (currentData s1))),
                  (''standpipePressure'', Num (standpipePressure (currentData s1)))],
               t_id = [] \<rparr> s1
      else s)"

definition warnSevereLoss :: "env \<Rightarrow> real \<Rightarrow> Engine \<Rightarrow> Engine" where
  "warnSevereLoss en lossRate s =
     (if lossRate > 5 \<and> \<not> timerSet (warningTimers s) ''severeLostCirculation''
      then announce en ''severeLostCirculation'' ''critical''
             ''Severe lost circulation - significant fluid loss to formation'' s
      else s)"

definition checkLostCirculation :: "env \<Rightarrow> FormationProps \<Rightarrow> Engine \<Rightarrow> Engine" where
  "checkLostCirculation en formationProps s =
     (if mudWeight (currentData s) > fracturePressure formationProps
         \<or> standpipePressure (currentData s) > fracturePressure formationProps * 150
      then warnSevereLoss en (lossRateOf formationProps s)
             (warnLostCirculation en formationProps (loseMud (lossRateOf formationProps s) s))
      else clearTimer ''severeLostCirculation'' (clearTimer ''lostCirculation'' s))"

definition checkForEvents :: "env \<Rightarrow> FormationProps \<Rightarrow> Engine \<Rightarrow> Engine" where
  "checkForEvents en formationProps s =
     checkLostCirculation en formationProps (checkKick en formationProps s)"

subsection \<open>Terminal evaluator\<close>

text \<open>The value read from \<^verbatim>\<open>this.warningTimers[key]\<close> where the source has just made sure
  that the key is present.\<close>

definition timerValue :: "(string \<rightharpoonup> nat) \<Rightarrow> string \<Rightarrow> nat" where
  "timerValue m k = (case m k of None \<Rightarrow> 0 | Some t \<Rightarrow> t)"

text \<open>Conditions 5 and 6 of \<^verbatim>\<open>checkGameOverConditions\<close> (equipment failure, well collapse),
  which the source reaches from three places of condition 4.\<close>

definition checkEquipmentAndCollapse :: "env \<Rightarrow> FormationProps \<Rightarrow> Engine \<Rightarrow> Engine" where
  "checkEquipmentAndCollapse en formationProps s =
     (if pumps_health (equipmentStatus s) \<le> 0 then triggerGameOver en ''Pump Failure'' PumpFailure s
      else if drillString_health (equipmentStatus s) \<le> 0
        then triggerGameOver en ''Drill String Failure'' DrillStringFailure s
      else if bop_health (equipmentStatus s) \<le> 0 then triggerGameOver en ''BOP Failure'' BOPFailure s
      else
        let depthWithoutCasing = bitDepth (currentData s) - casingDepth s;
            timeSinceLastCasing = int (simulationTime s) - int (lastCasingRun s)
        in if depthWithoutCasing > 1500 \<and> timeSinceLastCasing > 1000
              \<and> (lithology formationProps = ''shale'' \<or> permeability formationProps < 0.01)
           then triggerGameOver en ''Wellbore Collapse'' WellboreCollapse s
           else s)"

definition mitigating :: "Engine \<Rightarrow> Action \<Rightarrow> bool" where
  "mitigating s a \<longleftrightarrow>
     (case warningTimestamps s ''gasInflux'' of None \<Rightarrow> False | Some ts \<Rightarrow> a_time a > ts)
     \<and> (sublist ''BOP'' (a_action a) \<or> sublist ''mudWeight'' (a_action a)
          \<or> sublist ''chokePosition'' (a_action a))"

text \<open>Condition 4 (gas influx ignored), in two parts: starting the timer, and what follows
  once it runs.\<close>

definition startGasInfluxTimer :: "env \<Rightarrow> Engine \<Rightarrow> Engine" where
  "startGasInfluxTimer en s =
     (if \<not> timerSet (warningTimers s) ''gasInflux'' then armTimer en ''gasInflux'' s else s)"

definition recordMissedWarning :: "Engine \<Rightarrow> Engine" where
  "recordMissedWarning s =
     s\<lparr> missedWarnings := missedWarnings s @
          [\<lparr> mw_warning = ''Gas Influx Detected'',
             mw_time = warningTimestamps s ''gasInflux'',
             mw_requiredAction = ''Close BOP and adjust mud weight'',
             mw_timeAllowed = ''60 seconds'' \<rparr>] \<rparr>"

definition gasInfluxIgnored :: "env \<Rightarrow> FormationProps \<Rightarrow> Engine \<Rightarrow> Engine" where
  "gasInfluxIgnored en formationProps s =
     (let timeElapsed = real (simulationTime s) - real (timerValue (warningTimers s) ''gasInflux'')
      in if timeElapsed > 60 * speed s
         then
           let actionsAfterWarning = filter (mitigating s) (actionLog s)
           in if length actionsAfterWarning = 0
              then
                let h2sPresent = (lithology formationProps = ''shale'' \<or> scenario s = ''blowout'')
                in if h2sPresent
                   then triggerGameOver en ''H2S Exposure'' H2SExposure (recordMissedWarning s)
                   else triggerGameOver en ''Uncontrolled Gas Influx'' UncontrolledGasInflux
                          (recordMissedWarning s)
              else checkEquipmentAndCollapse en formationProps (clearTimer ''gasInflux'' s)
         else checkEquipmentAndCollapse en formationProps s)"

definition checkGameOverConditions :: "env \<Rightarrow> FormationProps \<Rightarrow> Engine \<Rightarrow> Engine" where
  "checkGameOverConditions en formationProps s =
     (if pitLevel (currentData s) = 0 then triggerGameOver en ''Mud Pit Depletion'' MudPitDepletion s
      else if bitDepth (currentData s) > 500 \<and> gasLevel (currentData s) > 20
              \<and> c_bopStatus (controls s) = ''open''
        then triggerGameOver en ''Blowout Event'' BlowoutEvent s
      else if (standpipePressure (currentData s) > fracturePressure formationProps * 200
               \<or> mudWeight (currentData s) > fracturePressure formationProps * 1.2)
              \<and> gasLevel (currentData s) > 5 \<and> pitLevel (currentData s) < 30
        then triggerGameOver en ''Formation Breakdown with Kick'' FormationBreakdown s
      else if bitDepth (currentData s) > 500 \<and> gasLevel (currentData s) > 5
        then gasInfluxIgnored en formationProps (startGasInfluxTimer en s)
      else checkEquipmentAndCollapse en formationProps (clearTimer ''gasInflux'' s))"

subsection \<open>Equipment health\<close>

text \<open>\<^verbatim>\<open>updateEquipmentStatus\<close> has three blocks, one per unit; the drill string block first
  stores the vibration and torque readings.\<close>

definition wearPumps :: "Engine \<Rightarrow> Engine" where
  "wearPumps s =
     (let q = equipmentStatus s
      in if c_pumpRate (controls s) > 800
         then
           let damageRate = (c_pumpRate (controls s) - 800) / 200
           in s\<lparr> equipmentStatus := q\<lparr> pumps_overuseDuration := pumps_overuseDuration q + 1,
                                        pumps_health := pumps_health q - damageRate * 0.1 \<rparr> \<rparr>
         else if pumps_overuseDuration q > 0
           then s\<lparr> equipmentStatus :=
                     q\<lparr> pumps_overuseDuration := max 0 (pumps_overuseDuration q - 0.5) \<rparr> \<rparr>
         else s)"

definition readDrillString :: "Engine \<Rightarrow> Engine" where
  "readDrillString s =
     s\<lparr> equipmentStatus := (equipmentStatus s)
          \<lparr> drillString_vibration := calculateVibration s,
            drillString_torque := torque (currentData s) \<rparr> \<rparr>"

definition damageDrillString :: "Engine \<Rightarrow> Engine" where
  "damageDrillString s =
     (let q = equipmentStatus s;
          vibrationDamage = max 0 ((drillString_vibration q - 80) * 0.05);
          torqueDamage = max 0 ((drillString_torque q - 90) * 0.1)
      in s\<lparr> equipmentStatus :=
             q\<lparr> drillString_health := drillString_health q - (vibrationDamage + torqueDamage) \<rparr> \<rparr>)"

definition warnVibration :: "env \<Rightarrow> Engine \<Rightarrow> Engine" where
  "warnVibration en s =
     (if \<not> timerSet (warningTimers s) ''highVibration''
         \<and> drillString_vibration (equipmentStatus s) > 80
      then announce en ''highVibration'' ''warning''
             ''High vibration detected - risk of drill string damage'' s
      else s)"

definition warnTorque :: "env \<Rightarrow> Engine \<Rightarrow> Engine" where
  "warnTorque en s =
     (if \<not> timerSet (warningTimers s) ''highTorque''
         \<and> drillString_torque (equipmentStatus s) > 90
      then announce en ''highTorque'' ''warning''
             ''High torque detected - risk of drill string damage or twist-off'' s
      else s)"

definition wearDrillString :: "env \<Rightarrow> Engine \<Rightarrow> Engine" where
  "wearDrillString en s =
     (if drillString_vibration (equipmentStatus s) > 80
         \<or> drillString_torque (equipmentStatus s) > 90
      then warnTorque en (warnVibration en (damageDrillString s))
      else clearTimer ''highTorque'' (clearTimer ''highVibration'' s))"

definition damageBop :: "Engine \<Rightarrow> Engine" where
  "damageBop s =
     s\<lparr> equipmentStatus := (equipmentStatus s)
          \<lparr> bop_health := bop_health (equipmentStatus s) - c_rotarySpeed (controls s) * 0.1 \<rparr> \<rparr>"

definition warnBop :: "env \<Rightarrow> Engine \<Rightarrow> Engine" where
  "warnBop en s =
     (if \<not> timerSet (warningTimers s) ''bopWithRotation''
      then announce en ''bopWithRotation'' ''warning''
             ''BOP closed while pipe is rotating - risk of equipment damage'' s
      else s)"

definition wearBop :: "env \<Rightarrow> Engine \<Rightarrow> Engine" where
  "wearBop en s =
     (if c_bopStatus (controls s) = ''closed'' \<and> c_rotarySpeed (controls s) > 30
      then warnBop en (damageBop s)
      else clearTimer ''bopWithRotation'' s)"

definition updateEquipmentStatus :: "env \<Rightarrow> Engine \<Rightarrow> Engine" where
  "updateEquipmentStatus en s =
     wearBop en (wearDrillString en (readDrillString (wearPumps s)))"

subsection \<open>Tripping\<close>

definition swabInflux :: "env \<Rightarrow> real \<Rightarrow> Engine \<Rightarrow> Engine" where
  "swabInflux en swabPressureReduction s =
     (if mudWeight (currentData s) * 0.052 * bitDepth (currentData s)
           < formationPressure (currentData s)
      then
        let s1 = s\<lparr> currentData := (currentData s)
                   \<lparr> gasLevel := gasLevel (currentData s) + swabPressureReduction * 0.5,
                     pitLevel := pitLevel (currentData s) + swabPressureReduction * 0.2 \<rparr> \<rparr>
        in if \<not> timerSet (warningTimers s1) ''swabKick''
           then announce en ''swabKick'' ''warning''
                  ''Swab-induced kick detected - tripping out too fast'' s1
           else s1
      else s)"

definition swabEffect :: "env \<Rightarrow> real \<Rightarrow> Engine \<Rightarrow> Engine" where
  "swabEffect en actualSpeed s =
     (if direction (trippingStatus s) = ''out'' \<and> actualSpeed > 100
      then
        let swabPressureReduction = (actualSpeed - 100) * 0.05
        in swabInflux en swabPressureReduction
             (s\<lparr> currentData := (currentData s)
                  \<lparr> formationPressure := formationPressure (currentData s)
                                            + swabPressureReduction \<rparr> \<rparr>)
      else s)"

definition surgeLoss :: "env \<Rightarrow> real \<Rightarrow> Engine \<Rightarrow> Engine" where
  "surgeLoss en surgePressureIncrease s =
     (let formationProps = getFormationPropertiesAtDepth s (bitDepth (currentData s))
      in if annularPressure (currentData s) > fracturePressure formationProps * 100
         then
           let s1 = s\<lparr> currentData := (currentData s)
                      \<lparr> pitLevel := pitLevel (currentData s) - surgePressureIncrease * 0.5 \<rparr> \<rparr>
           in if \<not> timerSet (warningTimers s1) ''surgeLoss''
              then announce en ''surgeLoss'' ''warning''
                     ''Surge-induced losses detected - tripping in too fast'' s1
              else s1
         else s)"

definition surgeEffect :: "env \<Rightarrow> real \<Rightarrow> Engine \<Rightarrow> Engine" where
  "surgeEffect en actualSpeed s =
     (if direction (trippingStatus s) = ''in'' \<and> actualSpeed > 100
      then
        let surgePressureIncrease = (actualSpeed - 100) * 0.1
        in surgeLoss en surgePressureIncrease
             (s\<lparr> currentData := (currentData s)
                  \<lparr> annularPressure := annularPressure (currentData s)
                                          + surgePressureIncrease \<rparr> \<rparr>)
      else s)"

text \<open>\<^verbatim>\<open>timeDelta / 60\<close> is not zero where the speed is computed, the source having
  returned for \<^verbatim>\<open>timeDelta <= 0\<close>.\<close>

definition checkTrippingOperations :: "env \<Rightarrow> Engine \<Rightarrow> Engine" where
  "checkTrippingOperations en s =
     (if \<not> isTripping (trippingStatus s) then s
      else
        let currentTime = simulationTime s;
            timeDelta = int currentTime - int (lastTime (trippingStatus s))
        in if timeDelta \<le> 0 then s
           else
             let currentDepth = bitDepth (currentData s);
                 depthDelta = currentDepth - lastDepth (trippingStatus s);
                 actualSpeed = \<bar>depthDelta\<bar> / (real_of_int timeDelta / 60)
             in surgeEffect en actualSpeed (swabEffect en actualSpeed
                  (s\<lparr> trippingStatus := (trippingStatus s)
                       \<lparr> lastDepth := currentDepth, lastTime := currentTime \<rparr> \<rparr>)))"

subsection \<open>Kick handling\<close>

definition checkKickHandling :: "env \<Rightarrow> Engine \<Rightarrow> Engine" where
  "checkKickHandling en s =
     (let s1 = (if previousGasLevel s > 3
                   \<and> gasLevel (currentData s) < previousGasLevel s
                   \<and> c_bopStatus (controls s) = ''closed''
                then addTimelineEvent en
                       \<lparr> t_type = ''kickHandled'', t_time = now en,
                         t_description = [Lit ''Kick successfully controlled''],
                         t_severity = ''success'',
                         t_parameters = [(''depth'', Num (bitDepth (currentData s))),
                                         (''gasLevel'', Num (gasLevel (currentData s))),
                                         (''mudWeight'', Num (mudWeight (currentData s)))],
                         t_id = [] \<rparr>
                       (s\<lparr> kicksHandled := kicksHandled s + 1 \<rparr>)
                else s)
      in s1\<lparr> previousGasLevel := gasLevel (currentData s1) \<rparr>)"

subsection \<open>The tick\<close>

text \<open>The blocks that \<^verbatim>\<open>updateSimulation\<close> writes inline are given names first
  (\<open>advanceClock\<close>, \<open>depthIncrementOf\<close> and \<open>moveBit\<close>, \<open>updateParameters\<close>,
  \<open>autoCheckpoint\<close>, \<open>periodicLog\<close>); the tick is their composition with the methods
  it calls, in the order of the source.

  \<^verbatim>\<open>this.elapsedTime += 1 / this.speed\<close> and \<^verbatim>\<open>this.controls.rop / (3600 / this.speed)\<close>: with
  speed zero JavaScript adds an infinity to the elapsed time (HOL adds \<open>0\<close>); the depth
  increment is \<open>0\<close> in both.\<close>

definition advanceClock :: "Engine \<Rightarrow> Engine" where
  "advanceClock s = s\<lparr> simulationTime := simulationTime s + 1,
                       elapsedTime := elapsedTime s + 1 / speed s \<rparr>"

definition depthIncrementOf :: "Engine \<Rightarrow> real" where
  "depthIncrementOf s =
     (if c_drawworks (controls s) = ''unlocked'' then 0
      else c_rop (controls s) / (3600 / speed s))"

definition moveBit :: "Engine \<Rightarrow> Engine" where
  "moveBit s =
     (if c_drawworks (controls s) = ''unlocked''
      then s\<lparr> currentData := (currentData s)
                \<lparr> bitDepth := max 0 (bitDepth (currentData s)
                     + (c_hookPosition (controls s) - bitDepth (currentData s) / 100) * 10) \<rparr> \<rparr>
      else s\<lparr> currentData := (currentData s)
                \<lparr> bitDepth := bitDepth (currentData s) + depthIncrementOf s \<rparr> \<rparr>)"

definition updateParameters :: "FormationProps \<Rightarrow> Engine \<Rightarrow> Engine" where
  "updateParameters formationProps s =
     s\<lparr> currentData := (currentData s)
          \<lparr> rop := c_rop (controls s),
            rpm := c_rotarySpeed (controls s),
            torque := calculateTorque (c_rotarySpeed (controls s)) formationProps,
            hookload := calculateHookload (bitDepth (currentData s)) (wellType s),
            mudWeight := c_mudWeight (controls s),
            pumpPressure := calculatePumpPressure (c_pumpRate (controls s))
                              (bitDepth (currentData s)),
            standpipePressure :=
              calculateStandpipePressure
                (calculatePumpPressure (c_pumpRate (controls s)) (bitDepth (currentData s)))
                (c_chokePosition (controls s)),
            annularPressure :=
              calculateAnnularPressure
                (calculateStandpipePressure
                   (calculatePumpPressure (c_pumpRate (controls s)) (bitDepth (currentData s)))
                   (c_chokePosition (controls s)))
                (bitDepth (currentData s)),
            pitLevel := max 0 (pitLevel (currentData s)),
            formationPressure := porePressure formationProps,
            bopStatus := c_bopStatus (controls s),
            chokePosition := c_chokePosition (controls s) \<rparr> \<rparr>"

definition autoCheckpoint :: "env \<Rightarrow> real \<Rightarrow> Engine \<Rightarrow> Engine" where
  "autoCheckpoint en depthIncrement s =
     (if \<lfloor>bitDepth (currentData s) / 500\<rfloor>
          > \<lfloor>(bitDepth (currentData s) - depthIncrement) / 500\<rfloor>
      then snd (createCheckpoint en True s) else s)"

definition periodicLog :: "env \<Rightarrow> Engine \<Rightarrow> Engine" where
  "periodicLog en s = (if simulationTime s mod 5 = 0 then addToLogs en s else s)"

text \<open>\<^verbatim>\<open>updateSimulation\<close>. The formation properties are read at the bit depth of the
  tick's start and used for the rest of the tick.\<close>

definition updateSimulation :: "env \<Rightarrow> Engine \<Rightarrow> Engine" where
  "updateSimulation en s =
     (if gameOver s then s
      else
        let s1 = advanceClock s;
            formationProps = getFormationPropertiesAtDepth s1 (bitDepth (currentData s1));
            s2 = checkFormationTransition en (bitDepth (currentData s1)) s1;
            depthIncrement = depthIncrementOf s2;
            s3 = moveBit s2;
            s4 = updateParameters formationProps s3;
            s5 = checkForEvents en formationProps s4;
            s6 = checkGameOverConditions en formationProps s5;
            s7 = updateEquipmentStatus en s6;
            s8 = checkTrippingOperations en s7;
            s9 = autoCheckpoint en depthIncrement s8;
            s10 = periodicLog en s9
        in checkKickHandling en s10)"

text \<open>The callback armed by \<^verbatim>\<open>start\<close>: it exists while the interval is set and calls
  \<^verbatim>\<open>updateSimulation\<close> unless the engine is paused.\<close>

definition timerFires :: "env \<Rightarrow> Engine \<Rightarrow> Engine" where
  "timerFires en s =
     (if simulationInterval s \<noteq> None \<and> \<not> paused s then updateSimulation en s else s)"

definition refreshLogs :: "env \<Rightarrow> Engine \<Rightarrow> Engine" where
  "refreshLogs en s = addToLogs en s"

definition refreshData :: "env \<Rightarrow> Engine \<Rightarrow> Engine" where
  "refreshData en s =
     (let s1 = refreshLogs en s
      in if running s1 \<and> \<not> paused s1 then updateSimulation en s1 else s1)"

text \<open>A run of ticks, one reading of the environment per tick.\<close>

fun ticks :: "env list \<Rightarrow> Engine \<Rightarrow> Engine" where
  "ticks [] s = s"
| "ticks (en # ens) s = ticks ens (updateSimulation en s)"

subsection \<open>Risk aggregator\<close>

record RiskLevel =
  level :: real
  rtype :: "string option"
  decaying :: bool

text \<open>\<^verbatim>\<open>getRiskLevel\<close> returns an object; the model returns it with the state the call
  leaves. The division by \<^verbatim>\<open>hydrostaticPressure * 0.05\<close> is by a positive number whenever
  the mud weight is positive, the depth being above 500 there.\<close>

definition riskReason :: "string option \<Rightarrow> string" where
  "riskReason riskType =
     (if riskType = Some ''kick'' then ''Uncontrolled Kick''
      else if riskType = Some ''lostCirculation'' then ''Catastrophic Lost Circulation''
      else if riskType = Some ''pitDepletion'' then ''Mud System Failure''
      else if riskType = Some ''equipmentFailure'' then ''Critical Equipment Failure''
      else if riskType = Some ''wellboreInstability'' then ''Wellbore Collapse''
      else ''Critical System Failure'')"

definition computeRisk :: "Engine \<Rightarrow> real \<times> string option" where
  "computeRisk s =
     (let d = currentData s;
          hydrostaticPressure = mudWeight d * 0.052 * bitDepth d;
          formationProps = getFormationPropertiesAtDepth s (bitDepth d);
          r0 = (0, None);
          r1 = (if bitDepth d > 500 \<and> porePressure formationProps > hydrostaticPressure * 0.95
                then
                  let kickRisk = min 100 (((porePressure formationProps - hydrostaticPressure * 0.95)
                                             / (hydrostaticPressure * 0.05)) * 100);
                      formationKickFactor = orDefault (p_kickRisk formationProps) 0.2;
                      adjustedKickRisk = kickRisk * (0.7 + formationKickFactor * 0.3)
                  in if adjustedKickRisk > fst r0 then (adjustedKickRisk, Some ''kick'') else r0
                else r0);
          r2 = (if mudWeight d > fracturePressure formationProps * 0.9
                   \<or> standpipePressure d > fracturePressure formationProps * 130
                then
                  let lossRisk = min 100 (max
                        (((mudWeight d - fracturePressure formationProps * 0.9)
                            / (fracturePressure formationProps * 0.1)) * 100)
                        (((standpipePressure d - fracturePressure formationProps * 130)
                            / (fracturePressure formationProps * 20)) * 100))
                  in if lossRisk > fst r1 then (lossRisk, Some ''lostCirculation'') else r1
                else r1);
          r3 = (if pitLevel d < 30
                then
                  let pitRisk = min 100 (((30 - pitLevel d) / 30) * 100)
                  in if pitRisk > fst r2 then (pitRisk, Some ''pitDepletion'') else r2
                else r2);
          equipmentRisk = min 100 (max (max ((100 - pumps_health (equipmentStatus s)) * 1.2)
                                            ((100 - drillString_health (equipmentStatus s)) * 1.2))
                                       ((100 - bop_health (equipmentStatus s)) * 1.2));
          r4 = (if equipmentRisk > fst r3 then (equipmentRisk, Some ''equipmentFailure'') else r3);
          depthWithoutCasing = bitDepth d - casingDepth s
      in if depthWithoutCasing > 1000
            \<and> (lithology formationProps = ''shale'' \<or> permeability formationProps < 0.01)
         then
           let instabilityRisk = min 100 ((depthWithoutCasing - 1000) / 10)
           in if instabilityRisk > fst r4 then (instabilityRisk, Some ''wellboreInstability'') else r4
         else r4)"

definition getRiskLevel :: "env \<Rightarrow> Engine \<Rightarrow> RiskLevel \<times> Engine" where
  "getRiskLevel en s =
     (let riskLevel = fst (computeRisk s);
          riskType = snd (computeRisk s);
          riskParameters =
            [(''previousRisk'', Num (of_int (jsRound (lastRiskLevel s)))),
             (''currentRisk'', Num (of_int (jsRound riskLevel))),
             (''riskType'', (case riskType of None \<Rightarrow> Null | Some t \<Rightarrow> Str t))];
          dec = (riskLevel < lastRiskLevel s);
          s1 = (if riskLevel < lastRiskLevel s
                then
                  (if lastRiskLevel s - riskLevel > 20
                   then addTimelineEvent en
                          \<lparr> t_type = ''riskDecreased'', t_time = now en,
                            t_description =
                              [Lit ''Risk level decreased from '', Whole (jsRound (lastRiskLevel s)),
                               Lit ''% to '', Whole (jsRound riskLevel), Lit ''%''],
                            t_severity = ''success'', t_parameters = riskParameters,
                            t_id = [] \<rparr> s
                   else s)
                else if riskLevel > lastRiskLevel s + 10
                  then addTimelineEvent en
                         \<lparr> t_type = ''riskIncreased'', t_time = now en,
                           t_description =
                             [Lit ''Risk level increased to '', Whole (jsRound riskLevel),
                              Lit ''% - '',
                              Lit (case riskType of None \<Rightarrow> ''multiple issues'' | Some t \<Rightarrow> t)],
                           t_severity = (if riskLevel > 70 then ''critical'' else ''warning''),
                           t_parameters = riskParameters, t_id = [] \<rparr> s
                else s);
          s2 = s1\<lparr> lastRiskLevel := riskLevel, riskDecaying := dec \<rparr>;
          s3 = (if riskLevel \<ge> 100 \<and> \<not> gameOver s2
                then triggerGameOver en (riskReason riskType) (RiskFailure riskType) s2
                else s2)
      in (\<lparr> level = riskLevel, rtype = riskType, decaying = dec \<rparr>, s3))"

subsection \<open>Scenarios\<close>

text \<open>\<^verbatim>\<open>loadScenario\<close> picks a layer object out of \<^verbatim>\<open>getLayers()\<close> (a copy of the array over the
  same layer objects), assigns to its fields in place and then passes it to
  \<^verbatim>\<open>updateLayer\<close>: the list holds the changed layer at its index, and \<^verbatim>\<open>updateLayer\<close> then
  overwrites the first layer of that name with a copy and sorts.\<close>

fun firstIndex :: "('a \<Rightarrow> bool) \<Rightarrow> 'a list \<Rightarrow> nat option" where
  "firstIndex p [] = None"
| "firstIndex p (x # xs) = (if p x then Some 0 else map_option Suc (firstIndex p xs))"

text \<open>\<^verbatim>\<open>layers.reduce((prev, current) => prev.depth > current.depth ? prev : current)\<close>, as
  the index of the layer it returns (the list is not empty where it is called).\<close>

definition deepestIndex :: "FormationLayer list \<Rightarrow> nat" where
  "deepestIndex ls =
     foldl (\<lambda>i j. if l_depth (ls ! i) > l_depth (ls ! j) then i else j) 0 [1..<length ls]"

definition editLayerAt :: "nat \<Rightarrow> (FormationLayer \<Rightarrow> FormationLayer) \<Rightarrow> FormationLayer list
    \<Rightarrow> FormationLayer list" where
  "editLayerAt i f ls = (let m = f (ls ! i) in updateLayer m (ls[i := m]))"

definition scenarioLayers :: "string \<Rightarrow> FormationLayer list \<Rightarrow> FormationLayer list" where
  "scenarioLayers sc ls =
     (if ls = [] then ls
      else if sc = ''kick'' then
        (case firstIndex (\<lambda>l. l_depth l > 1500) ls of
           None \<Rightarrow> ls
         | Some i \<Rightarrow> editLayerAt i (\<lambda>l. l\<lparr> l_porePressure := 14.0, l_kickRisk := Some 0.6 \<rparr>) ls)
      else if sc = ''lost-circulation'' then
        (case firstIndex (\<lambda>l. l_depth l > 800 \<and> l_depth l < 1500) ls of
           None \<Rightarrow> ls
         | Some i \<Rightarrow> editLayerAt i (\<lambda>l. l\<lparr> l_fracturePressure := 11.0 \<rparr>) ls)
      else if sc = ''stuck-pipe'' then
        (case firstIndex (\<lambda>l. l_depth l > 1000) ls of
           None \<Rightarrow> ls
         | Some i \<Rightarrow> editLayerAt i (\<lambda>l. l\<lparr> l_permeability := 0.001, l_porePressure := 8.0 \<rparr>) ls)
      else if sc = ''blowout'' then
        editLayerAt (deepestIndex ls)
          (\<lambda>l. l\<lparr> l_porePressure := 16.0, l_permeability := 0.5, l_kickRisk := Some 0.8 \<rparr>) ls
      else ls)"

definition loadScenario :: "string \<Rightarrow> Engine \<Rightarrow> Engine" where
  "loadScenario sc s =
     (let s1 = reset (s\<lparr> scenario := sc \<rparr>)
      in s1\<lparr> formation := map_option (scenarioLayers sc) (formation s1) \<rparr>)"

subsection \<open>The engine as a state machine\<close>

text \<open>The public operations of the engine, and the calls the host can make on the attached
  formation model, as commands; \<open>exec\<close> runs one command and drops its return value.
  A state is reachable when a sequence of commands leads to it from a new engine.\<close>

datatype cmd =
    Start | Pause | Resume | Stop | Reset | ResetGameOver
  | SetSpeed real | SetTrainingMode bool | SetWellType string | SetTargetDepth real
  | SetFormation "FormationLayer list option"
  | SetControls env "ctl list"
  | RunCasing env | StartTripping env string real | StopTripping env
  | LoadScenario string
  | TimerFires env | RefreshLogs env | RefreshData env
  | GetRiskLevel env
  | CreateCheckpoint env bool | LoadCheckpoint env string
  | AddLayer FormationLayer | UpdateLayer FormationLayer | RemoveLayer string

fun exec :: "cmd \<Rightarrow> Engine \<Rightarrow> Engine" where
  "exec Start s = start s"
| "exec Pause s = pause s"
| "exec Resume s = resume s"
| "exec Stop s = stop s"
| "exec Reset s = reset s"
| "exec ResetGameOver s = resetGameOver s"
| "exec (SetSpeed v) s = setSpeed v s"
| "exec (SetTrainingMode m) s = setTrainingMode m s"
| "exec (SetWellType t) s = setWellType t s"
| "exec (SetTargetDepth d) s = setTargetDepth d s"
| "exec (SetFormation f) s = setFormation f s"
| "exec (SetControls en cs) s = setControls en cs s"
| "exec (RunCasing en) s = runCasing en s"
| "exec (StartTripping en dir v) s = startTripping en dir v s"
| "exec (StopTripping en) s = stopTripping en s"
| "exec (LoadScenario sc) s = loadScenario sc s"
| "exec (TimerFires en) s = timerFires en s"
| "exec (RefreshLogs en) s = refreshLogs en s"
| "exec (RefreshData en) s = refreshData en s"
| "exec (GetRiskLevel en) s = snd (getRiskLevel en s)"
| "exec (CreateCheckpoint en a) s = snd (createCheckpoint en a s)"
| "exec (LoadCheckpoint en i) s = snd (loadCheckpoint en i s)"
| "exec (AddLayer l) s = s\<lparr> formation := map_option (addLayer l) (formation s) \<rparr>"
| "exec (UpdateLayer l) s = s\<lparr> formation := map_option (updateLayer l) (formation s) \<rparr>"
| "exec (RemoveLayer n) s = s\<lparr> formation := map_option (removeLayer n) (formation s) \<rparr>"

fun run :: "cmd list \<Rightarrow> Engine \<Rightarrow> Engine" where
  "run [] s = s"
| "run (c # cs) s = run cs (exec c s)"

inductive reachable :: "Engine \<Rightarrow> bool" where
  reachable_new: "reachable newEngine"
| reachable_exec: "reachable s \<Longrightarrow> reachable (exec c s)"

text \<open>A run of \<^verbatim>\<open>createCheckpoint\<close> calls: the checkpoints returned, in order, and the final
  state.\<close>

fun createCheckpoints :: "(env \<times> bool) list \<Rightarrow> Engine \<Rightarrow> Checkpoint list \<times> Engine" where
  "createCheckpoints [] s = ([], s)"
| "createCheckpoints ((en, a) # rest) s =
     (let (cp, s1) = createCheckpoint en a s;
          (cps, s2) = createCheckpoints rest s1
      in (cp # cps, s2))"


subsection \<open>Observations used in the statements\<close>

text \<open>The events of type \<^verbatim>\<open>kick\<close> in the event log.\<close>

definition kickEvents :: "Engine \<Rightarrow> SimEvent list" where
  "kickEvents s = filter (\<lambda>e. e_type e = ''kick'') (getEventLog s)"

text \<open>The upper bound of the three equipment healths.\<close>

definition healthsAtMost100 :: "EquipmentStatus \<Rightarrow> bool" where
  "healthsAtMost100 q \<longleftrightarrow>
     pumps_health q \<le> 100 \<and> drillString_health q \<le> 100 \<and> bop_health q \<le> 100"

text \<open>\<open>noHealthier q' q\<close>: no unit is healthier in \<open>q'\<close> than in \<open>q\<close>.\<close>

definition noHealthier :: "EquipmentStatus \<Rightarrow> EquipmentStatus \<Rightarrow> bool" where
  "noHealthier q' q \<longleftrightarrow>
     pumps_health q' \<le> pumps_health q \<and> drillString_health q' \<le> drillString_health q
     \<and> bop_health q' \<le> bop_health q"

text \<open>The bound holds of the live equipment status and of every stored checkpoint (from
  which \<^verbatim>\<open>loadCheckpoint\<close> may restore it).\<close>

definition healthInvariant :: "Engine \<Rightarrow> bool" where
  "healthInvariant s \<longleftrightarrow>
     healthsAtMost100 (equipmentStatus s)
     \<and> (\<forall>cp \<in> set (checkpoints s). healthsAtMost100 (s_equipmentStatus (cp_state cp)))"

subsection \<open>Concrete runs used as examples\<close>

definition exampleEnv :: env where
  "exampleEnv = \<lparr> now = 1000, rnd = 1 / 2, rid = 7 \<rparr>"


definition oneCheckpoint :: Engine where
  "oneCheckpoint = snd (createCheckpoint exampleEnv False newEngine)"

definition tenCheckpoints :: Engine where
  "tenCheckpoints =
     snd (createCheckpoints
            (map (\<lambda>k. (\<lparr> now = 1000 + k, rnd = 1 / 2, rid = 7 \<rparr>, False)) [0..<10])
            newEngine)"

text \<open>A layer that a host can add to the default formation; it starts inside the
  overpressured zone.\<close>

definition saltDome :: FormationLayer where
  "saltDome = \<lparr> l_name = ''Salt Dome'', l_depth = 2700, l_thickness = 400,
     l_porePressure = 10.0, l_fracturePressure = 13.0, l_permeability = 0.001,
     l_lithology = ''salt'', l_kickRisk = None \<rparr>"



text \<open>A started engine whose rotary speed is set to 200 rpm with the BOP closed (its
  initial status), after five firings of the timer: every tick has taken 20 from the BOP
  health, which is now 0, and the game is not over yet.\<close>

definition fastRotation :: Engine where
  "fastRotation =
     run ([SetControls exampleEnv [RotarySpeed 200], Start] @ replicate 5 (TimerFires exampleEnv))
       newEngine"


text \<open>A new engine with the drawworks unlocked and the hook position at 100, tripping in,
  after one tick: the bit has moved 1000 ft in that tick.\<close>

definition surgeTrip :: Engine where
  "surgeTrip =
     updateSimulation exampleEnv
       (startTripping exampleEnv ''in'' 50
          (setControls exampleEnv [Drawworks ''unlocked'', HookPosition 100] newEngine))"

text \<open>A layer of pore pressure 15.5 ppg below the default layers, and an engine on that
  formation whose bit has been lowered to 3000 ft (one tick with the drawworks unlocked
  and the hook position at 300) and whose drawworks are locked again.\<close>

definition deepZone :: FormationLayer where
  "deepZone = \<lparr> l_name = ''Deep Zone'', l_depth = 2800, l_thickness = 700,
     l_porePressure = 15.5, l_fracturePressure = 17.5, l_permeability = 0.05,
     l_lithology = ''limestone'', l_kickRisk = None \<rparr>"

definition atDepth3000 :: Engine where
  "atDepth3000 =
     setControls exampleEnv [Drawworks ''locked'']
       (updateSimulation exampleEnv
          (setControls exampleEnv [Drawworks ''unlocked'', HookPosition 300]
             (setFormation (Some (addLayer deepZone initializeDefaultLayers)) newEngine)))"

subsection \<open>Facts about the formation model\<close>

lemma scanLayers_None: "scanLayers d ls = None \<longleftrightarrow> (\<forall>l \<in> set ls. \<not> inLayer d l)"
  by (induction ls) auto

lemma scanLayers_first:
  "\<forall>l \<in> set pre. \<not> inLayer d l \<Longrightarrow> inLayer d L \<Longrightarrow> scanLayers d (pre @ L # post) = Some L"
  by (induction pre) auto

lemma getLayerAtDepth_first:
  "\<forall>l \<in> set pre. \<not> inLayer d l \<Longrightarrow> inLayer d L \<Longrightarrow> getLayerAtDepth (pre @ L # post) d = Some L"
  by (simp add: getLayerAtDepth_def scanLayers_first)

lemma sorted_below_all:
  assumes "sorted (map l_depth ls)" "ls \<noteq> []" "d < l_depth (hd ls)" "l \<in> set ls"
  shows "d < l_depth l"
proof -
  obtain x xs where ls: "ls = x # xs" using assms(2) by (cases ls) auto
  show ?thesis
  proof (cases "l = x")
    case True
    with assms(3) ls show ?thesis by simp
  next
    case False
    with assms(4) ls have "l \<in> set xs" by simp
    with assms(1) ls have "l_depth x \<le> l_depth l" by auto
    with assms(3) ls show ?thesis by simp
  qed
qed

text \<open>Claim C10. Whenever \<^verbatim>\<open>getLayerAtDepth(D)\<close> yields no layer,
  \<^verbatim>\<open>getPropertiesAtDepth(D)\<close> is exactly the default record (pore pressure 9.0, fracture
  pressure 14.0, permeability 0.1, lithology sandstone); the function is total, so no error
  is raised. No layer is found in particular when the layer list is empty, and when the
  list is sorted by depth (as every mutator of the class leaves it) and D lies above the top
  of the first layer.\<close>

theorem C10_default_properties_when_no_layer:
  "(getLayerAtDepth layers d = None \<longrightarrow>
       getPropertiesAtDepth layers d =
         \<lparr> porePressure = 9.0, fracturePressure = 14.0, permeability = 0.1,
           lithology = ''sandstone'', p_kickRisk = None \<rparr>)
   \<and> getLayerAtDepth [] d = None
   \<and> (layers \<noteq> [] \<and> sorted (map l_depth layers) \<and> d < l_depth (hd layers) \<longrightarrow>
        getLayerAtDepth layers d = None)"
proof (intro conjI impI)
  assume "getLayerAtDepth layers d = None"
  then show "getPropertiesAtDepth layers d =
         \<lparr> porePressure = 9.0, fracturePressure = 14.0, permeability = 0.1,
           lithology = ''sandstone'', p_kickRisk = None \<rparr>"
    by (simp add: getPropertiesAtDepth_def defaultProps_def)
next
  show "getLayerAtDepth [] d = None"
    by (simp add: getLayerAtDepth_def)
next
  assume a: "layers \<noteq> [] \<and> sorted (map l_depth layers) \<and> d < l_depth (hd layers)"
  then have below: "\<forall>l \<in> set layers. d < l_depth l"
    using sorted_below_all by blast
  then have "scanLayers d layers = None"
    by (auto simp: scanLayers_None inLayer_def)
  moreover have "\<not> d \<ge> l_depth (last layers)"
    using a below last_in_set by fastforce
  ultimately show "getLayerAtDepth layers d = None"
    by (simp add: getLayerAtDepth_def)
qed

theorem C10_default_properties_witness:
  "getLayerAtDepth initializeDefaultLayers (-5) = None
   \<and> initializeDefaultLayers \<noteq> []
   \<and> sorted (map l_depth initializeDefaultLayers)
   \<and> (-5) < l_depth (hd initializeDefaultLayers)
   \<and> getPropertiesAtDepth initializeDefaultLayers (-5) =
         \<lparr> porePressure = 9.0, fracturePressure = 14.0, permeability = 0.1,
           lithology = ''sandstone'', p_kickRisk = None \<rparr>"
proof -
  have h: "initializeDefaultLayers \<noteq> [] \<and> sorted (map l_depth initializeDefaultLayers)
       \<and> (-5) < l_depth (hd initializeDefaultLayers)"
    by (simp add: initializeDefaultLayers_def)
  note c = C10_default_properties_when_no_layer [of initializeDefaultLayers "-5"]
  have n: "getLayerAtDepth initializeDefaultLayers (-5) = None"
    using c [THEN conjunct2, THEN conjunct2, THEN mp, OF h] .
  have "getPropertiesAtDepth initializeDefaultLayers (-5) =
         \<lparr> porePressure = 9.0, fracturePressure = 14.0, permeability = 0.1,
           lithology = ''sandstone'', p_kickRisk = None \<rparr>"
    using c [THEN conjunct1, THEN mp, OF n] .
  with n h show ?thesis by simp
qed

subsection \<open>Terminal state and ticks\<close>


subsection \<open>Checkpoints\<close>


lemma createCheckpoint_checkpoints:
  "checkpoints (snd (createCheckpoint en a s)) =
     (if length (checkpoints s) \<ge> 10
      then lastN 10 (checkpoints s @ [fst (createCheckpoint en a s)])
      else checkpoints s @ [fst (createCheckpoint en a s)])"
  by (simp add: createCheckpoint_def Let_def addTimelineEvent_def)

lemma lastN_length: "length (lastN n xs) \<le> n"
  by (simp add: lastN_def)

lemma lastN_short: "length xs \<le> n \<Longrightarrow> lastN n xs = xs"
  by (simp add: lastN_def)

lemma lastN_snoc_full: "length xs = n \<Longrightarrow> n > 0 \<Longrightarrow> lastN n (xs @ [x]) = tl xs @ [x]"
  by (cases xs) (simp_all add: lastN_def)

lemma lastN_lastN_append: "lastN n (lastN n xs @ ys) = lastN n (xs @ ys)"
proof (cases "length xs \<le> n")
  case True
  then show ?thesis by (simp add: lastN_def)
next
  case False
  then have "length ys + length xs - n = length xs + length ys - n" by simp
  with False show ?thesis by (simp add: lastN_def)
qed

lemma createCheckpoint_lastN:
  "length (checkpoints s) \<le> 10 \<Longrightarrow>
   checkpoints (snd (createCheckpoint en a s)) =
     lastN 10 (checkpoints s @ [fst (createCheckpoint en a s)])"
  by (simp add: createCheckpoint_checkpoints lastN_def)

lemma createCheckpoint_length:
  "length (checkpoints (snd (createCheckpoint en a s))) \<le> 10"
  by (simp add: createCheckpoint_checkpoints lastN_def)

lemma createCheckpoints_lastN:
  "length (checkpoints s) \<le> 10 \<Longrightarrow>
   checkpoints (snd (createCheckpoints xs s)) =
     lastN 10 (checkpoints s @ fst (createCheckpoints xs s))"
proof (induction xs arbitrary: s)
  case Nil
  then show ?case by (simp add: lastN_short)
next
  case (Cons x xs)
  obtain en a where x: "x = (en, a)" by (cases x)
  let ?s1 = "snd (createCheckpoint en a s)"
  let ?cp = "fst (createCheckpoint en a s)"
  have len: "length (checkpoints ?s1) \<le> 10"
    by (rule createCheckpoint_length)
  have "checkpoints (snd (createCheckpoints (x # xs) s)) =
          checkpoints (snd (createCheckpoints xs ?s1))"
    by (simp add: x split_beta Let_def)
  also have "\<dots> = lastN 10 (checkpoints ?s1 @ fst (createCheckpoints xs ?s1))"
    by (rule Cons.IH [OF len])
  also have "\<dots> = lastN 10 (lastN 10 (checkpoints s @ [?cp]) @ fst (createCheckpoints xs ?s1))"
    by (simp add: createCheckpoint_lastN [OF Cons.prems])
  also have "\<dots> = lastN 10 ((checkpoints s @ [?cp]) @ fst (createCheckpoints xs ?s1))"
    by (rule lastN_lastN_append)
  also have "\<dots> = lastN 10 (checkpoints s @ fst (createCheckpoints (x # xs) s))"
    by (simp add: x split_beta Let_def)
  finally show ?case .
qed

text \<open>Claim C6. After any \<^verbatim>\<open>createCheckpoint\<close> call the list of \<^verbatim>\<open>getCheckpoints()\<close> has at
  most 10 entries. Starting from a list within the bound (a new engine has none), after any
  sequence of calls the list is the last 10 of the old list followed by the checkpoints
  created, in creation order; in particular the call made on a full list of 10 evicts the
  oldest entry and appends the new one.\<close>

theorem C6_checkpoints_bounded_fifo:
  "length (getCheckpoints (snd (createCheckpoint en a s))) \<le> 10
   \<and> (length (getCheckpoints s) \<le> 10 \<longrightarrow>
        length (getCheckpoints (snd (createCheckpoints xs s))) \<le> 10
        \<and> getCheckpoints (snd (createCheckpoints xs s)) =
            lastN 10 (getCheckpoints s @ fst (createCheckpoints xs s)))
   \<and> (length (getCheckpoints s) = 10 \<longrightarrow>
        getCheckpoints (snd (createCheckpoint en a s)) =
          tl (getCheckpoints s) @ [fst (createCheckpoint en a s)])"
proof (intro conjI impI)
  show "length (getCheckpoints (snd (createCheckpoint en a s))) \<le> 10"
    by (simp add: getCheckpoints_def createCheckpoint_length)
next
  assume b: "length (getCheckpoints s) \<le> 10"
  then show "getCheckpoints (snd (createCheckpoints xs s)) =
            lastN 10 (getCheckpoints s @ fst (createCheckpoints xs s))"
    by (simp add: getCheckpoints_def createCheckpoints_lastN)
  then show "length (getCheckpoints (snd (createCheckpoints xs s))) \<le> 10"
    by (simp add: lastN_length)
next
  assume f: "length (getCheckpoints s) = 10"
  then show "getCheckpoints (snd (createCheckpoint en a s)) =
          tl (getCheckpoints s) @ [fst (createCheckpoint en a s)]"
    by (simp add: getCheckpoints_def createCheckpoint_checkpoints lastN_snoc_full)
qed

lemma length_fst_createCheckpoints: "length (fst (createCheckpoints xs s)) = length xs"
  by (induction xs arbitrary: s) (auto simp: split_beta Let_def)

theorem C6_checkpoints_witness:
  "length (getCheckpoints tenCheckpoints) \<le> 10
   \<and> length (getCheckpoints tenCheckpoints) = 10
   \<and> length (getCheckpoints (snd (createCheckpoint exampleEnv False tenCheckpoints))) \<le> 10
   \<and> getCheckpoints (snd (createCheckpoint exampleEnv False tenCheckpoints)) =
        tl (getCheckpoints tenCheckpoints) @ [fst (createCheckpoint exampleEnv False tenCheckpoints)]
   \<and> getCheckpoints (snd (createCheckpoints [(exampleEnv, True)] tenCheckpoints)) =
        lastN 10 (getCheckpoints tenCheckpoints
                    @ fst (createCheckpoints [(exampleEnv, True)] tenCheckpoints))"
proof -
  have "checkpoints newEngine = []"
    by (simp add: newEngine_def)
  then have f: "length (getCheckpoints tenCheckpoints) = 10"
    by (simp add: getCheckpoints_def tenCheckpoints_def createCheckpoints_lastN
          length_fst_createCheckpoints lastN_def)
  then have b: "length (getCheckpoints tenCheckpoints) \<le> 10"
    by simp
  note t = C6_checkpoints_bounded_fifo [of exampleEnv False tenCheckpoints "[(exampleEnv, True)]"]
  note t1 = t [THEN conjunct1]
  note t2 = t [THEN conjunct2, THEN conjunct1, THEN mp, OF b]
  note t3 = t [THEN conjunct2, THEN conjunct2, THEN mp, OF f]
  from f b t1 t2 t3 show ?thesis by simp
qed

subsection \<open>Pore pressure inside a layer\<close>

lemma porePressure_in_layer:
  "getLayerAtDepth layers d = Some L \<Longrightarrow>
   porePressure (getPropertiesAtDepth layers d) =
     l_porePressure L + (d - l_depth L) / l_thickness L * 0.1"
  by (simp add: getPropertiesAtDepth_def Let_def)

text \<open>Claim C9, as the code has it. \<^verbatim>\<open>getLayerAtDepth\<close> answers with the first layer in list
  order whose range holds the depth, so the claim holds for the depths of a layer that no
  earlier layer of the list also holds: for a layer \<open>L\<close> of positive thickness and depths
  \<open>D1 \<le> D2\<close> in its range \<open>[depth, depth + thickness)\<close>, neither of them inside an earlier
  layer, the pore pressure at \<open>D1\<close> is at most the one at \<open>D2\<close>; and if no earlier layer
  holds the top of \<open>L\<close>, the pore pressure returned there is the base pore pressure of
  \<open>L\<close>.\<close>

theorem C9_porePressure_monotone_where_layer_is_first_match:
  assumes "l_thickness L > 0"
  shows "(inLayer d1 L \<and> inLayer d2 L \<and> d1 \<le> d2
            \<and> (\<forall>l \<in> set pre. \<not> inLayer d1 l \<and> \<not> inLayer d2 l) \<longrightarrow>
          porePressure (getPropertiesAtDepth (pre @ L # post) d1)
            \<le> porePressure (getPropertiesAtDepth (pre @ L # post) d2))
       \<and> ((\<forall>l \<in> set pre. \<not> inLayer (l_depth L) l) \<longrightarrow>
          porePressure (getPropertiesAtDepth (pre @ L # post) (l_depth L)) = l_porePressure L)"
proof (intro conjI impI)
  assume a: "inLayer d1 L \<and> inLayer d2 L \<and> d1 \<le> d2
            \<and> (\<forall>l \<in> set pre. \<not> inLayer d1 l \<and> \<not> inLayer d2 l)"
  then have g1: "getLayerAtDepth (pre @ L # post) d1 = Some L"
    by (intro getLayerAtDepth_first) auto
  from a have g2: "getLayerAtDepth (pre @ L # post) d2 = Some L"
    by (intro getLayerAtDepth_first) auto
  from a have "(d1 - l_depth L) / l_thickness L \<le> (d2 - l_depth L) / l_thickness L"
    using assms by (simp add: divide_right_mono)
  then show "porePressure (getPropertiesAtDepth (pre @ L # post) d1)
            \<le> porePressure (getPropertiesAtDepth (pre @ L # post) d2)"
    by (simp add: porePressure_in_layer [OF g1] porePressure_in_layer [OF g2])
next
  assume b: "\<forall>l \<in> set pre. \<not> inLayer (l_depth L) l"
  have "inLayer (l_depth L) L"
    using assms by (simp add: inLayer_def)
  with b have "getLayerAtDepth (pre @ L # post) (l_depth L) = Some L"
    by (intro getLayerAtDepth_first) auto
  then show "porePressure (getPropertiesAtDepth (pre @ L # post) (l_depth L)) = l_porePressure L"
    by (simp add: porePressure_in_layer)
qed

theorem C9_porePressure_monotone_witness:
  "l_thickness (initializeDefaultLayers ! 1) > 0
   \<and> inLayer 600 (initializeDefaultLayers ! 1) \<and> inLayer 1400 (initializeDefaultLayers ! 1)
   \<and> (600 :: real) \<le> 1400
   \<and> porePressure (getPropertiesAtDepth initializeDefaultLayers 600)
        \<le> porePressure (getPropertiesAtDepth initializeDefaultLayers 1400)
   \<and> porePressure (getPropertiesAtDepth initializeDefaultLayers
                      (l_depth (initializeDefaultLayers ! 1)))
        = l_porePressure (initializeDefaultLayers ! 1)"
proof -
  let ?L = "initializeDefaultLayers ! 1"
  let ?pre = "take 1 initializeDefaultLayers"
  let ?post = "drop 2 initializeDefaultLayers"
  have split: "initializeDefaultLayers = ?pre @ ?L # ?post"
    by (simp add: initializeDefaultLayers_def)
  have th: "l_thickness ?L > 0"
    by (simp add: initializeDefaultLayers_def)
  have a: "inLayer 600 ?L \<and> inLayer 1400 ?L \<and> (600 :: real) \<le> 1400
            \<and> (\<forall>l \<in> set ?pre. \<not> inLayer 600 l \<and> \<not> inLayer 1400 l)"
    by (simp add: initializeDefaultLayers_def inLayer_def)
  have b: "\<forall>l \<in> set ?pre. \<not> inLayer (l_depth ?L) l"
    by (simp add: initializeDefaultLayers_def inLayer_def)
  note t = C9_porePressure_monotone_where_layer_is_first_match
             [OF th, of 600 1400 ?pre ?post, folded split]
  note t1 = t [THEN conjunct1, THEN mp, OF a]
  note t2 = t [THEN conjunct2, THEN mp, OF b]
  from th a t1 t2 show ?thesis by simp
qed

text \<open>The claim as stated fails where layers overlap, and the class accepts overlapping
  layers: a salt layer added at 2700 ft under the default formation overlaps the
  overpressured zone (2300 to 2800 ft). Depths 2750 and 2900 both lie in the salt layer's
  range, yet the pore pressure returned at 2750 comes from the overpressured zone and is the
  higher one, and the value returned at the salt layer's top is not its base value.\<close>

theorem C9_overlap_counterexample:
  "saltDome \<in> set (addLayer saltDome initializeDefaultLayers)
   \<and> l_thickness saltDome > 0
   \<and> inLayer 2750 saltDome \<and> inLayer 2900 saltDome \<and> (2750 :: real) \<le> 2900
   \<and> porePressure (getPropertiesAtDepth (addLayer saltDome initializeDefaultLayers) 2750)
        > porePressure (getPropertiesAtDepth (addLayer saltDome initializeDefaultLayers) 2900)
   \<and> porePressure (getPropertiesAtDepth (addLayer saltDome initializeDefaultLayers)
                      (l_depth saltDome))
        \<noteq> l_porePressure saltDome"
  by (simp add: addLayer_def initializeDefaultLayers_def saltDome_def inLayer_def
        getPropertiesAtDepth_def getLayerAtDepth_def Let_def)

subsection \<open>Reset\<close>

text \<open>Claim C5, as the code has it. \<^verbatim>\<open>reset()\<close> stops the clock, clears the game-over state
  and the warning bookkeeping, puts simulation time, elapsed time, current data (with a new,
  empty \<^verbatim>\<open>events\<close> array), controls, equipment status, casing and tripping state and the
  risk tracking back to their initial constants, and empties the log data, the event log, the
  action log, the timeline and the formation transitions. The configuration of the engine
  (speed, training mode, well type, attached formation, scenario, target depth) is kept.\<close>

theorem C5_reset:
  "running (reset s) = False \<and> paused (reset s) = False \<and> simulationInterval (reset s) = None
   \<and> isGameOver (reset s) = False \<and> gameOverReason (reset s) = []
   \<and> gameOverDetails (reset s) = None
   \<and> missedWarnings (reset s) = [] \<and> warningTimers (reset s) = Map.empty
   \<and> warningTimestamps (reset s) = Map.empty
   \<and> simulationTime (reset s) = 0 \<and> elapsedTime (reset s) = 0
   \<and> getCurrentData (reset s) = initialData (nextArray s)
   \<and> arrays (reset s) (events (getCurrentData (reset s))) = []
   \<and> controls (reset s) = initialControls
   \<and> equipmentStatus (reset s) = initialEquipment
   \<and> casingDepth (reset s) = 0 \<and> lastCasingRun (reset s) = 0
   \<and> trippingStatus (reset s) = initialTripping
   \<and> lastRiskLevel (reset s) = 0 \<and> riskDecaying (reset s) = False
   \<and> lastFormationDepth (reset s) = 0 \<and> currentFormation (reset s) = None
   \<and> getLogData (reset s) = [] \<and> getEventLog (reset s) = [] \<and> actionLog (reset s) = []
   \<and> getTimelineEvents (reset s) = [] \<and> formationTransitions (reset s) = []
   \<and> speed (reset s) = speed s \<and> trainingMode (reset s) = trainingMode s
   \<and> wellType (reset s) = wellType s \<and> formation (reset s) = formation s
   \<and> scenario (reset s) = scenario s \<and> targetDepth (reset s) = targetDepth s"
  by (simp add: reset_def resetGameOver_def stop_def Let_def isGameOver_def getCurrentData_def
        getLogData_def getEventLog_def getTimelineEvents_def initialData_def)

text \<open>The claim as stated fails: \<^verbatim>\<open>reset()\<close> does not touch the checkpoint list, and it
  keeps the configured speed instead of the initial constant 1.\<close>

theorem C5_reset_counterexample:
  "getCheckpoints (reset oneCheckpoint) \<noteq> []
   \<and> speed (reset (setSpeed 2 newEngine)) = 2 \<and> speed newEngine = 1"
  by (simp add: oneCheckpoint_def createCheckpoint_def Let_def addTimelineEvent_def
        getCheckpoints_def reset_def resetGameOver_def stop_def setSpeed_def newEngine_def
        fieldInitialisers_def lastN_def)

subsection \<open>What each step of a tick leaves alone\<close>

lemma kickEvents_update [simp]:
  "kickEvents (s\<lparr>warningTimers := w\<rparr>) = kickEvents s"
  "kickEvents (s\<lparr>warningTimestamps := ws\<rparr>) = kickEvents s"
  "kickEvents (s\<lparr>missedWarnings := m\<rparr>) = kickEvents s"
  "kickEvents (s\<lparr>equipmentStatus := q\<rparr>) = kickEvents s"
  "kickEvents (s\<lparr>trippingStatus := t\<rparr>) = kickEvents s"
  "kickEvents (s\<lparr>currentData := d\<rparr>) = kickEvents s"
  "kickEvents (s\<lparr>timelineEvents := tls\<rparr>) = kickEvents s"
  "kickEvents (s\<lparr>checkpoints := c\<rparr>) = kickEvents s"
  "kickEvents (s\<lparr>logData := l\<rparr>) = kickEvents s"
  "kickEvents (s\<lparr>kicksHandled := k\<rparr>) = kickEvents s"
  "kickEvents (s\<lparr>previousGasLevel := g\<rparr>) = kickEvents s"
  "kickEvents (s\<lparr>lastRiskLevel := r\<rparr>) = kickEvents s"
  "kickEvents (s\<lparr>riskDecaying := b\<rparr>) = kickEvents s"
  "kickEvents (s\<lparr>simulationTime := n\<rparr>) = kickEvents s"
  "kickEvents (s\<lparr>elapsedTime := x\<rparr>) = kickEvents s"
  "kickEvents (s\<lparr>paused := p\<rparr>) = kickEvents s"
  "kickEvents (s\<lparr>gameOver := go\<rparr>) = kickEvents s"
  "kickEvents (s\<lparr>gameOverReason := gr\<rparr>) = kickEvents s"
  "kickEvents (s\<lparr>gameOverDetails := gd\<rparr>) = kickEvents s"
  "kickEvents (s\<lparr>formationTransitions := ft\<rparr>) = kickEvents s"
  "kickEvents (s\<lparr>currentFormation := cf\<rparr>) = kickEvents s"
  "kickEvents (s\<lparr>lastFormationDepth := lf\<rparr>) = kickEvents s"
  by (simp_all add: kickEvents_def getEventLog_def)

lemma pushEvent_frame [simp]:
  "controls (pushEvent e s) = controls s"
  "formation (pushEvent e s) = formation s"
  "speed (pushEvent e s) = speed s"
  "trippingStatus (pushEvent e s) = trippingStatus s"
  "casingDepth (pushEvent e s) = casingDepth s"
  "lastCasingRun (pushEvent e s) = lastCasingRun s"
  "equipmentStatus (pushEvent e s) = equipmentStatus s"
  "checkpoints (pushEvent e s) = checkpoints s"
  "gameOver (pushEvent e s) = gameOver s"
  "simulationTime (pushEvent e s) = simulationTime s"
  "currentData (pushEvent e s) = currentData s"
  "scenario (pushEvent e s) = scenario s"
  "wellType (pushEvent e s) = wellType s"
  "warningTimers (pushEvent e s) = warningTimers s"
  "kickEvents (pushEvent e s) = (if e_type e = ''kick'' then kickEvents s @ [e] else kickEvents s)"
  by (simp_all add: pushEvent_def kickEvents_def getEventLog_def)

lemma armTimer_frame [simp]:
  "controls (armTimer en k s) = controls s"
  "formation (armTimer en k s) = formation s"
  "speed (armTimer en k s) = speed s"
  "trippingStatus (armTimer en k s) = trippingStatus s"
  "casingDepth (armTimer en k s) = casingDepth s"
  "lastCasingRun (armTimer en k s) = lastCasingRun s"
  "equipmentStatus (armTimer en k s) = equipmentStatus s"
  "checkpoints (armTimer en k s) = checkpoints s"
  "gameOver (armTimer en k s) = gameOver s"
  "simulationTime (armTimer en k s) = simulationTime s"
  "currentData (armTimer en k s) = currentData s"
  "scenario (armTimer en k s) = scenario s"
  "wellType (armTimer en k s) = wellType s"
  "kickEvents (armTimer en k s) = kickEvents s"
  "warningTimers (armTimer en k s) = (warningTimers s)(k \<mapsto> simulationTime s)"
  by (simp_all add: armTimer_def)

lemma clearTimer_frame [simp]:
  "controls (clearTimer k s) = controls s"
  "formation (clearTimer k s) = formation s"
  "speed (clearTimer k s) = speed s"
  "trippingStatus (clearTimer k s) = trippingStatus s"
  "casingDepth (clearTimer k s) = casingDepth s"
  "lastCasingRun (clearTimer k s) = lastCasingRun s"
  "equipmentStatus (clearTimer k s) = equipmentStatus s"
  "checkpoints (clearTimer k s) = checkpoints s"
  "gameOver (clearTimer k s) = gameOver s"
  "simulationTime (clearTimer k s) = simulationTime s"
  "currentData (clearTimer k s) = currentData s"
  "scenario (clearTimer k s) = scenario s"
  "wellType (clearTimer k s) = wellType s"
  "kickEvents (clearTimer k s) = kickEvents s"
  "warningTimers (clearTimer k s) = (warningTimers s)(k \<mapsto> 0)"
  by (simp_all add: clearTimer_def)

lemma warningEvent_type [simp]: "e_type (warningEvent en s ty sev descr) = ty"
  by (simp add: warningEvent_def)

lemma announce_frame [simp]:
  "controls (announce en k sev descr s) = controls s"
  "formation (announce en k sev descr s) = formation s"
  "speed (announce en k sev descr s) = speed s"
  "trippingStatus (announce en k sev descr s) = trippingStatus s"
  "casingDepth (announce en k sev descr s) = casingDepth s"
  "lastCasingRun (announce en k sev descr s) = lastCasingRun s"
  "equipmentStatus (announce en k sev descr s) = equipmentStatus s"
  "checkpoints (announce en k sev descr s) = checkpoints s"
  "gameOver (announce en k sev descr s) = gameOver s"
  "simulationTime (announce en k sev descr s) = simulationTime s"
  "currentData (announce en k sev descr s) = currentData s"
  "scenario (announce en k sev descr s) = scenario s"
  "wellType (announce en k sev descr s) = wellType s"
  "k \<noteq> ''kick'' \<Longrightarrow> kickEvents (announce en k sev descr s) = kickEvents s"
  by (simp_all add: announce_def Let_def)

lemma addTimelineEvent_frame [simp]:
  "controls (addTimelineEvent en ev s) = controls s"
  "formation (addTimelineEvent en ev s) = formation s"
  "speed (addTimelineEvent en ev s) = speed s"
  "trippingStatus (addTimelineEvent en ev s) = trippingStatus s"
  "casingDepth (addTimelineEvent en ev s) = casingDepth s"
  "lastCasingRun (addTimelineEvent en ev s) = lastCasingRun s"
  "equipmentStatus (addTimelineEvent en ev s) = equipmentStatus s"
  "checkpoints (addTimelineEvent en ev s) = checkpoints s"
  "gameOver (addTimelineEvent en ev s) = gameOver s"
  "simulationTime (addTimelineEvent en ev s) = simulationTime s"
  "currentData (addTimelineEvent en ev s) = currentData s"
  "scenario (addTimelineEvent en ev s) = scenario s"
  "wellType (addTimelineEvent en ev s) = wellType s"
  "kickEvents (addTimelineEvent en ev s) = kickEvents s"
  "warningTimers (addTimelineEvent en ev s) = warningTimers s"
  by (simp_all add: addTimelineEvent_def Let_def)

lemma addToLogs_frame [simp]:
  "controls (addToLogs en s) = controls s"
  "formation (addToLogs en s) = formation s"
  "speed (addToLogs en s) = speed s"
  "trippingStatus (addToLogs en s) = trippingStatus s"
  "casingDepth (addToLogs en s) = casingDepth s"
  "lastCasingRun (addToLogs en s) = lastCasingRun s"
  "equipmentStatus (addToLogs en s) = equipmentStatus s"
  "checkpoints (addToLogs en s) = checkpoints s"
  "gameOver (addToLogs en s) = gameOver s"
  "simulationTime (addToLogs en s) = simulationTime s"
  "currentData (addToLogs en s) = currentData s"
  "scenario (addToLogs en s) = scenario s"
  "wellType (addToLogs en s) = wellType s"
  "kickEvents (addToLogs en s) = kickEvents s"
  by (simp_all add: addToLogs_def Let_def)

lemma triggerGameOver_frame [simp]:
  "controls (triggerGameOver en r dt s) = controls s"
  "formation (triggerGameOver en r dt s) = formation s"
  "speed (triggerGameOver en r dt s) = speed s"
  "trippingStatus (triggerGameOver en r dt s) = trippingStatus s"
  "casingDepth (triggerGameOver en r dt s) = casingDepth s"
  "lastCasingRun (triggerGameOver en r dt s) = lastCasingRun s"
  "equipmentStatus (triggerGameOver en r dt s) = equipmentStatus s"
  "checkpoints (triggerGameOver en r dt s) = checkpoints s"
  "simulationTime (triggerGameOver en r dt s) = simulationTime s"
  "currentData (triggerGameOver en r dt s) = currentData s"
  "scenario (triggerGameOver en r dt s) = scenario s"
  "wellType (triggerGameOver en r dt s) = wellType s"
  "kickEvents (triggerGameOver en r dt s) = kickEvents s"
  by (simp_all add: triggerGameOver_def Let_def pause_def)

lemma advanceClock_frame [simp]:
  "controls (advanceClock s) = controls s"
  "formation (advanceClock s) = formation s"
  "speed (advanceClock s) = speed s"
  "trippingStatus (advanceClock s) = trippingStatus s"
  "casingDepth (advanceClock s) = casingDepth s"
  "lastCasingRun (advanceClock s) = lastCasingRun s"
  "equipmentStatus (advanceClock s) = equipmentStatus s"
  "checkpoints (advanceClock s) = checkpoints s"
  "gameOver (advanceClock s) = gameOver s"
  "currentData (advanceClock s) = currentData s"
  "scenario (advanceClock s) = scenario s"
  "wellType (advanceClock s) = wellType s"
  "kickEvents (advanceClock s) = kickEvents s"
  "simulationTime (advanceClock s) = simulationTime s + 1"
  by (simp_all add: advanceClock_def)

lemma checkFormationTransition_frame [simp]:
  "controls (checkFormationTransition en d s) = controls s"
  "formation (checkFormationTransition en d s) = formation s"
  "speed (checkFormationTransition en d s) = speed s"
  "trippingStatus (checkFormationTransition en d s) = trippingStatus s"
  "casingDepth (checkFormationTransition en d s) = casingDepth s"
  "lastCasingRun (checkFormationTransition en d s) = lastCasingRun s"
  "equipmentStatus (checkFormationTransition en d s) = equipmentStatus s"
  "checkpoints (checkFormationTransition en d s) = checkpoints s"
  "gameOver (checkFormationTransition en d s) = gameOver s"
  "simulationTime (checkFormationTransition en d s) = simulationTime s"
  "currentData (checkFormationTransition en d s) = currentData s"
  "scenario (checkFormationTransition en d s) = scenario s"
  "wellType (checkFormationTransition en d s) = wellType s"
  "kickEvents (checkFormationTransition en d s) = kickEvents s"
  by (simp_all add: checkFormationTransition_def Let_def split: option.split)

lemma moveBit_frame [simp]:
  "controls (moveBit s) = controls s"
  "formation (moveBit s) = formation s"
  "speed (moveBit s) = speed s"
  "trippingStatus (moveBit s) = trippingStatus s"
  "casingDepth (moveBit s) = casingDepth s"
  "lastCasingRun (moveBit s) = lastCasingRun s"
  "equipmentStatus (moveBit s) = equipmentStatus s"
  "checkpoints (moveBit s) = checkpoints s"
  "gameOver (moveBit s) = gameOver s"
  "simulationTime (moveBit s) = simulationTime s"
  "scenario (moveBit s) = scenario s"
  "wellType (moveBit s) = wellType s"
  "kickEvents (moveBit s) = kickEvents s"
  "mudWeight (currentData (moveBit s)) = mudWeight (currentData s)"
  "standpipePressure (currentData (moveBit s)) = standpipePressure (currentData s)"
  "gasLevel (currentData (moveBit s)) = gasLevel (currentData s)"
  "pitLevel (currentData (moveBit s)) = pitLevel (currentData s)"
  by (simp_all add: moveBit_def)

lemma updateParameters_frame [simp]:
  "controls (updateParameters fp s) = controls s"
  "formation (updateParameters fp s) = formation s"
  "speed (updateParameters fp s) = speed s"
  "trippingStatus (updateParameters fp s) = trippingStatus s"
  "casingDepth (updateParameters fp s) = casingDepth s"
  "lastCasingRun (updateParameters fp s) = lastCasingRun s"
  "equipmentStatus (updateParameters fp s) = equipmentStatus s"
  "checkpoints (updateParameters fp s) = checkpoints s"
  "gameOver (updateParameters fp s) = gameOver s"
  "simulationTime (updateParameters fp s) = simulationTime s"
  "scenario (updateParameters fp s) = scenario s"
  "wellType (updateParameters fp s) = wellType s"
  "kickEvents (updateParameters fp s) = kickEvents s"
  "bitDepth (currentData (updateParameters fp s)) = bitDepth (currentData s)"
  "gasLevel (currentData (updateParameters fp s)) = gasLevel (currentData s)"
  "mudWeight (currentData (updateParameters fp s)) = c_mudWeight (controls s)"
  "pitLevel (currentData (updateParameters fp s)) = max 0 (pitLevel (currentData s))"
  by (simp_all add: updateParameters_def)

lemma kickInflux_frame [simp]:
  "controls (kickInflux pd s) = controls s"
  "formation (kickInflux pd s) = formation s"
  "speed (kickInflux pd s) = speed s"
  "trippingStatus (kickInflux pd s) = trippingStatus s"
  "casingDepth (kickInflux pd s) = casingDepth s"
  "lastCasingRun (kickInflux pd s) = lastCasingRun s"
  "equipmentStatus (kickInflux pd s) = equipmentStatus s"
  "checkpoints (kickInflux pd s) = checkpoints s"
  "gameOver (kickInflux pd s) = gameOver s"
  "simulationTime (kickInflux pd s) = simulationTime s"
  "scenario (kickInflux pd s) = scenario s"
  "wellType (kickInflux pd s) = wellType s"
  "kickEvents (kickInflux pd s) = kickEvents s"
  "bitDepth (currentData (kickInflux pd s)) = bitDepth (currentData s)"
  "mudWeight (currentData (kickInflux pd s)) = mudWeight (currentData s)"
  "standpipePressure (currentData (kickInflux pd s)) = standpipePressure (currentData s)"
  by (simp_all add: kickInflux_def)

lemma checkKick_frame [simp]:
  "controls (checkKick en fp s) = controls s"
  "formation (checkKick en fp s) = formation s"
  "speed (checkKick en fp s) = speed s"
  "trippingStatus (checkKick en fp s) = trippingStatus s"
  "casingDepth (checkKick en fp s) = casingDepth s"
  "lastCasingRun (checkKick en fp s) = lastCasingRun s"
  "equipmentStatus (checkKick en fp s) = equipmentStatus s"
  "checkpoints (checkKick en fp s) = checkpoints s"
  "gameOver (checkKick en fp s) = gameOver s"
  "simulationTime (checkKick en fp s) = simulationTime s"
  "scenario (checkKick en fp s) = scenario s"
  "wellType (checkKick en fp s) = wellType s"
  "bitDepth (currentData (checkKick en fp s)) = bitDepth (currentData s)"
  "mudWeight (currentData (checkKick en fp s)) = mudWeight (currentData s)"
  "standpipePressure (currentData (checkKick en fp s)) = standpipePressure (currentData s)"
  by (simp_all add: checkKick_def warnKick_def Let_def)

lemma loseMud_frame [simp]:
  "controls (loseMud r s) = controls s"
  "formation (loseMud r s) = formation s"
  "speed (loseMud r s) = speed s"
  "trippingStatus (loseMud r s) = trippingStatus s"
  "casingDepth (loseMud r s) = casingDepth s"
  "lastCasingRun (loseMud r s) = lastCasingRun s"
  "equipmentStatus (loseMud r s) = equipmentStatus s"
  "checkpoints (loseMud r s) = checkpoints s"
  "gameOver (loseMud r s) = gameOver s"
  "simulationTime (loseMud r s) = simulationTime s"
  "scenario (loseMud r s) = scenario s"
  "wellType (loseMud r s) = wellType s"
  "kickEvents (loseMud r s) = kickEvents s"
  "bitDepth (currentData (loseMud r s)) = bitDepth (currentData s)"
  "mudWeight (currentData (loseMud r s)) = mudWeight (currentData s)"
  "standpipePressure (currentData (loseMud r s)) = standpipePressure (currentData s)"
  "gasLevel (currentData (loseMud r s)) = gasLevel (currentData s)"
  "warningTimers (loseMud r s) = warningTimers s"
  by (simp_all add: loseMud_def)

lemma warnLostCirculation_frame [simp]:
  "controls (warnLostCirculation en fp s) = controls s"
  "formation (warnLostCirculation en fp s) = formation s"
  "speed (warnLostCirculation en fp s) = speed s"
  "trippingStatus (warnLostCirculation en fp s) = trippingStatus s"
  "casingDepth (warnLostCirculation en fp s) = casingDepth s"
  "lastCasingRun (warnLostCirculation en fp s) = lastCasingRun s"
  "equipmentStatus (warnLostCirculation en fp s) = equipmentStatus s"
  "checkpoints (warnLostCirculation en fp s) = checkpoints s"
  "gameOver (warnLostCirculation en fp s) = gameOver s"
  "simulationTime (warnLostCirculation en fp s) = simulationTime s"
  "currentData (warnLostCirculation en fp s) = currentData s"
  "scenario (warnLostCirculation en fp s) = scenario s"
  "wellType (warnLostCirculation en fp s) = wellType s"
  "kickEvents (warnLostCirculation en fp s) = kickEvents s"
  by (simp_all add: warnLostCirculation_def Let_def)

lemma warnSevereLoss_frame [simp]:
  "controls (warnSevereLoss en r s) = controls s"
  "formation (warnSevereLoss en r s) = formation s"
  "speed (warnSevereLoss en r s) = speed s"
  "trippingStatus (warnSevereLoss en r s) = trippingStatus s"
  "casingDepth (warnSevereLoss en r s) = casingDepth s"
  "lastCasingRun (warnSevereLoss en r s) = lastCasingRun s"
  "equipmentStatus (warnSevereLoss en r s) = equipmentStatus s"
  "checkpoints (warnSevereLoss en r s) = checkpoints s"
  "gameOver (warnSevereLoss en r s) = gameOver s"
  "simulationTime (warnSevereLoss en r s) = simulationTime s"
  "currentData (warnSevereLoss en r s) = currentData s"
  "scenario (warnSevereLoss en r s) = scenario s"
  "wellType (warnSevereLoss en r s) = wellType s"
  "kickEvents (warnSevereLoss en r s) = kickEvents s"
  by (simp_all add: warnSevereLoss_def)

lemma checkLostCirculation_frame [simp]:
  "controls (checkLostCirculation en fp s) = controls s"
  "formation (checkLostCirculation en fp s) = formation s"
  "speed (checkLostCirculation en fp s) = speed s"
  "trippingStatus (checkLostCirculation en fp s) = trippingStatus s"
  "casingDepth (checkLostCirculation en fp s) = casingDepth s"
  "lastCasingRun (checkLostCirculation en fp s) = lastCasingRun s"
  "equipmentStatus (checkLostCirculation en fp s) = equipmentStatus s"
  "checkpoints (checkLostCirculation en fp s) = checkpoints s"
  "gameOver (checkLostCirculation en fp s) = gameOver s"
  "simulationTime (checkLostCirculation en fp s) = simulationTime s"
  "scenario (checkLostCirculation en fp s) = scenario s"
  "wellType (checkLostCirculation en fp s) = wellType s"
  "kickEvents (checkLostCirculation en fp s) = kickEvents s"
  "bitDepth (currentData (checkLostCirculation en fp s)) = bitDepth (currentData s)"
  "mudWeight (currentData (checkLostCirculation en fp s)) = mudWeight (currentData s)"
  "standpipePressure (currentData (checkLostCirculation en fp s)) = standpipePressure (currentData s)"
  "gasLevel (currentData (checkLostCirculation en fp s)) = gasLevel (currentData s)"
  by (simp_all add: checkLostCirculation_def)

lemma checkForEvents_frame [simp]:
  "controls (checkForEvents en fp s) = controls s"
  "formation (checkForEvents en fp s) = formation s"
  "speed (checkForEvents en fp s) = speed s"
  "trippingStatus (checkForEvents en fp s) = trippingStatus s"
  "casingDepth (checkForEvents en fp s) = casingDepth s"
  "lastCasingRun (checkForEvents en fp s) = lastCasingRun s"
  "equipmentStatus (checkForEvents en fp s) = equipmentStatus s"
  "checkpoints (checkForEvents en fp s) = checkpoints s"
  "gameOver (checkForEvents en fp s) = gameOver s"
  "simulationTime (checkForEvents en fp s) = simulationTime s"
  "scenario (checkForEvents en fp s) = scenario s"
  "wellType (checkForEvents en fp s) = wellType s"
  "bitDepth (currentData (checkForEvents en fp s)) = bitDepth (currentData s)"
  "mudWeight (currentData (checkForEvents en fp s)) = mudWeight (currentData s)"
  "standpipePressure (currentData (checkForEvents en fp s)) = standpipePressure (currentData s)"
  by (simp_all add: checkForEvents_def)

lemma checkEquipmentAndCollapse_frame [simp]:
  "controls (checkEquipmentAndCollapse en fp s) = controls s"
  "formation (checkEquipmentAndCollapse en fp s) = formation s"
  "speed (checkEquipmentAndCollapse en fp s) = speed s"
  "trippingStatus (checkEquipmentAndCollapse en fp s) = trippingStatus s"
  "casingDepth (checkEquipmentAndCollapse en fp s) = casingDepth s"
  "lastCasingRun (checkEquipmentAndCollapse en fp s) = lastCasingRun s"
  "equipmentStatus (checkEquipmentAndCollapse en fp s) = equipmentStatus s"
  "checkpoints (checkEquipmentAndCollapse en fp s) = checkpoints s"
  "simulationTime (checkEquipmentAndCollapse en fp s) = simulationTime s"
  "currentData (checkEquipmentAndCollapse en fp s) = currentData s"
  "scenario (checkEquipmentAndCollapse en fp s) = scenario s"
  "wellType (checkEquipmentAndCollapse en fp s) = wellType s"
  "kickEvents (checkEquipmentAndCollapse en fp s) = kickEvents s"
  by (simp_all add: checkEquipmentAndCollapse_def Let_def)

lemma startGasInfluxTimer_frame [simp]:
  "controls (startGasInfluxTimer en s) = controls s"
  "formation (startGasInfluxTimer en s) = formation s"
  "speed (startGasInfluxTimer en s) = speed s"
  "trippingStatus (startGasInfluxTimer en s) = trippingStatus s"
  "casingDepth (startGasInfluxTimer en s) = casingDepth s"
  "lastCasingRun (startGasInfluxTimer en s) = lastCasingRun s"
  "equipmentStatus (startGasInfluxTimer en s) = equipmentStatus s"
  "checkpoints (startGasInfluxTimer en s) = checkpoints s"
  "gameOver (startGasInfluxTimer en s) = gameOver s"
  "simulationTime (startGasInfluxTimer en s) = simulationTime s"
  "currentData (startGasInfluxTimer en s) = currentData s"
  "scenario (startGasInfluxTimer en s) = scenario s"
  "wellType (startGasInfluxTimer en s) = wellType s"
  "kickEvents (startGasInfluxTimer en s) = kickEvents s"
  by (simp_all add: startGasInfluxTimer_def)

lemma recordMissedWarning_frame [simp]:
  "controls (recordMissedWarning s) = controls s"
  "formation (recordMissedWarning s) = formation s"
  "speed (recordMissedWarning s) = speed s"
  "trippingStatus (recordMissedWarning s) = trippingStatus s"
  "casingDepth (recordMissedWarning s) = casingDepth s"
  "lastCasingRun (recordMissedWarning s) = lastCasingRun s"
  "equipmentStatus (recordMissedWarning s) = equipmentStatus s"
  "checkpoints (recordMissedWarning s) = checkpoints s"
  "gameOver (recordMissedWarning s) = gameOver s"
  "simulationTime (recordMissedWarning s) = simulationTime s"
  "currentData (recordMissedWarning s) = currentData s"
  "scenario (recordMissedWarning s) = scenario s"
  "wellType (recordMissedWarning s) = wellType s"
  "kickEvents (recordMissedWarning s) = kickEvents s"
  by (simp_all add: recordMissedWarning_def)

lemma gasInfluxIgnored_frame [simp]:
  "controls (gasInfluxIgnored en fp s) = controls s"
  "formation (gasInfluxIgnored en fp s) = formation s"
  "speed (gasInfluxIgnored en fp s) = speed s"
  "trippingStatus (gasInfluxIgnored en fp s) = trippingStatus s"
  "casingDepth (gasInfluxIgnored en fp s) = casingDepth s"
  "lastCasingRun (gasInfluxIgnored en fp s) = lastCasingRun s"
  "equipmentStatus (gasInfluxIgnored en fp s) = equipmentStatus s"
  "checkpoints (gasInfluxIgnored en fp s) = checkpoints s"
  "simulationTime (gasInfluxIgnored en fp s) = simulationTime s"
  "currentData (gasInfluxIgnored en fp s) = currentData s"
  "scenario (gasInfluxIgnored en fp s) = scenario s"
  "wellType (gasInfluxIgnored en fp s) = wellType s"
  "kickEvents (gasInfluxIgnored en fp s) = kickEvents s"
  by (simp_all add: gasInfluxIgnored_def Let_def)

lemma checkGameOverConditions_frame [simp]:
  "controls (checkGameOverConditions en fp s) = controls s"
  "formation (checkGameOverConditions en fp s) = formation s"
  "speed (checkGameOverConditions en fp s) = speed s"
  "trippingStatus (checkGameOverConditions en fp s) = trippingStatus s"
  "casingDepth (checkGameOverConditions en fp s) = casingDepth s"
  "lastCasingRun (checkGameOverConditions en fp s) = lastCasingRun s"
  "equipmentStatus (checkGameOverConditions en fp s) = equipmentStatus s"
  "checkpoints (checkGameOverConditions en fp s) = checkpoints s"
  "simulationTime (checkGameOverConditions en fp s) = simulationTime s"
  "currentData (checkGameOverConditions en fp s) = currentData s"
  "scenario (checkGameOverConditions en fp s) = scenario s"
  "wellType (checkGameOverConditions en fp s) = wellType s"
  "kickEvents (checkGameOverConditions en fp s) = kickEvents s"
  by (simp_all add: checkGameOverConditions_def)

lemma wearPumps_frame [simp]:
  "controls (wearPumps s) = controls s"
  "formation (wearPumps s) = formation s"
  "speed (wearPumps s) = speed s"
  "trippingStatus (wearPumps s) = trippingStatus s"
  "casingDepth (wearPumps s) = casingDepth s"
  "lastCasingRun (wearPumps s) = lastCasingRun s"
  "checkpoints (wearPumps s) = checkpoints s"
  "gameOver (wearPumps s) = gameOver s"
  "simulationTime (wearPumps s) = simulationTime s"
  "currentData (wearPumps s) = currentData s"
  "scenario (wearPumps s) = scenario s"
  "wellType (wearPumps s) = wellType s"
  "kickEvents (wearPumps s) = kickEvents s"
  by (simp_all add: wearPumps_def Let_def)

lemma readDrillString_frame [simp]:
  "controls (readDrillString s) = controls s"
  "formation (readDrillString s) = formation s"
  "speed (readDrillString s) = speed s"
  "trippingStatus (readDrillString s) = trippingStatus s"
  "casingDepth (readDrillString s) = casingDepth s"
  "lastCasingRun (readDrillString s) = lastCasingRun s"
  "checkpoints (readDrillString s) = checkpoints s"
  "gameOver (readDrillString s) = gameOver s"
  "simulationTime (readDrillString s) = simulationTime s"
  "currentData (readDrillString s) = currentData s"
  "scenario (readDrillString s) = scenario s"
  "wellType (readDrillString s) = wellType s"
  "kickEvents (readDrillString s) = kickEvents s"
  by (simp_all add: readDrillString_def)

lemma damageDrillString_frame [simp]:
  "controls (damageDrillString s) = controls s"
  "formation (damageDrillString s) = formation s"
  "speed (damageDrillString s) = speed s"
  "trippingStatus (damageDrillString s) = trippingStatus s"
  "casingDepth (damageDrillString s) = casingDepth s"
  "lastCasingRun (damageDrillString s) = lastCasingRun s"
  "checkpoints (damageDrillString s) = checkpoints s"
  "gameOver (damageDrillString s) = gameOver s"
  "simulationTime (damageDrillString s) = simulationTime s"
  "currentData (damageDrillString s) = currentData s"
  "scenario (damageDrillString s) = scenario s"
  "wellType (damageDrillString s) = wellType s"
  "kickEvents (damageDrillString s) = kickEvents s"
  by (simp_all add: damageDrillString_def Let_def)

lemma warnVibration_frame [simp]:
  "controls (warnVibration en s) = controls s"
  "formation (warnVibration en s) = formation s"
  "speed (warnVibration en s) = speed s"
  "trippingStatus (warnVibration en s) = trippingStatus s"
  "casingDepth (warnVibration en s) = casingDepth s"
  "lastCasingRun (warnVibration en s) = lastCasingRun s"
  "equipmentStatus (warnVibration en s) = equipmentStatus s"
  "checkpoints (warnVibration en s) = checkpoints s"
  "gameOver (warnVibration en s) = gameOver s"
  "simulationTime (warnVibration en s) = simulationTime s"
  "currentData (warnVibration en s) = currentData s"
  "scenario (warnVibration en s) = scenario s"
  "wellType (warnVibration en s) = wellType s"
  "kickEvents (warnVibration en s) = kickEvents s"
  by (simp_all add: warnVibration_def)

lemma warnTorque_frame [simp]:
  "controls (warnTorque en s) = controls s"
  "formation (warnTorque en s) = formation s"
  "speed (warnTorque en s) = speed s"
  "trippingStatus (warnTorque en s) = trippingStatus s"
  "casingDepth (warnTorque en s) = casingDepth s"
  "lastCasingRun (warnTorque en s) = lastCasingRun s"
  "equipmentStatus (warnTorque en s) = equipmentStatus s"
  "checkpoints (warnTorque en s) = checkpoints s"
  "gameOver (warnTorque en s) = gameOver s"
  "simulationTime (warnTorque en s) = simulationTime s"
  "currentData (warnTorque en s) = currentData s"
  "scenario (warnTorque en s) = scenario s"
  "wellType (warnTorque en s) = wellType s"
  "kickEvents (warnTorque en s) = kickEvents s"
  by (simp_all add: warnTorque_def)

lemma wearDrillString_frame [simp]:
  "controls (wearDrillString en s) = controls s"
  "formation (wearDrillString en s) = formation s"
  "speed (wearDrillString en s) = speed s"
  "trippingStatus (wearDrillString en s) = trippingStatus s"
  "casingDepth (wearDrillString en s) = casingDepth s"
  "lastCasingRun (wearDrillString en s) = lastCasingRun s"
  "checkpoints (wearDrillString en s) = checkpoints s"
  "gameOver (wearDrillString en s) = gameOver s"
  "simulationTime (wearDrillString en s) = simulationTime s"
  "currentData (wearDrillString en s) = currentData s"
  "scenario (wearDrillString en s) = scenario s"
  "wellType (wearDrillString en s) = wellType s"
  "kickEvents (wearDrillString en s) = kickEvents s"
  by (simp_all add: wearDrillString_def)

lemma damageBop_frame [simp]:
  "controls (damageBop s) = controls s"
  "formation (damageBop s) = formation s"
  "speed (damageBop s) = speed s"
  "trippingStatus (damageBop s) = trippingStatus s"
  "casingDepth (damageBop s) = casingDepth s"
  "lastCasingRun (damageBop s) = lastCasingRun s"
  "checkpoints (damageBop s) = checkpoints s"
  "gameOver (damageBop s) = gameOver s"
  "simulationTime (damageBop s) = simulationTime s"
  "currentData (damageBop s) = currentData s"
  "scenario (damageBop s) = scenario s"
  "wellType (damageBop s) = wellType s"
  "kickEvents (damageBop s) = kickEvents s"
  by (simp_all add: damageBop_def)

lemma warnBop_frame [simp]:
  "controls (warnBop en s) = controls s"
  "formation (warnBop en s) = formation s"
  "speed (warnBop en s) = speed s"
  "trippingStatus (warnBop en s) = trippingStatus s"
  "casingDepth (warnBop en s) = casingDepth s"
  "lastCasingRun (warnBop en s) = lastCasingRun s"
  "equipmentStatus (warnBop en s) = equipmentStatus s"
  "checkpoints (warnBop en s) = checkpoints s"
  "gameOver (warnBop en s) = gameOver s"
  "simulationTime (warnBop en s) = simulationTime s"
  "currentData (warnBop en s) = currentData s"
  "scenario (warnBop en s) = scenario s"
  "wellType (warnBop en s) = wellType s"
  "kickEvents (warnBop en s) = kickEvents s"
  by (simp_all add: warnBop_def)

lemma wearBop_frame [simp]:
  "controls (wearBop en s) = controls s"
  "formation (wearBop en s) = formation s"
  "speed (wearBop en s) = speed s"
  "trippingStatus (wearBop en s) = trippingStatus s"
  "casingDepth (wearBop en s) = casingDepth s"
  "lastCasingRun (wearBop en s) = lastCasingRun s"
  "checkpoints (wearBop en s) = checkpoints s"
  "gameOver (wearBop en s) = gameOver s"
  "simulationTime (wearBop en s) = simulationTime s"
  "currentData (wearBop en s) = currentData s"
  "scenario (wearBop en s) = scenario s"
  "wellType (wearBop en s) = wellType s"
  "kickEvents (wearBop en s) = kickEvents s"
  by (simp_all add: wearBop_def)

lemma updateEquipmentStatus_frame [simp]:
  "controls (updateEquipmentStatus en s) = controls s"
  "formation (updateEquipmentStatus en s) = formation s"
  "speed (updateEquipmentStatus en s) = speed s"
  "trippingStatus (updateEquipmentStatus en s) = trippingStatus s"
  "casingDepth (updateEquipmentStatus en s) = casingDepth s"
  "lastCasingRun (updateEquipmentStatus en s) = lastCasingRun s"
  "checkpoints (updateEquipmentStatus en s) = checkpoints s"
  "gameOver (updateEquipmentStatus en s) = gameOver s"
  "simulationTime (updateEquipmentStatus en s) = simulationTime s"
  "currentData (updateEquipmentStatus en s) = currentData s"
  "scenario (updateEquipmentStatus en s) = scenario s"
  "wellType (updateEquipmentStatus en s) = wellType s"
  "kickEvents (updateEquipmentStatus en s) = kickEvents s"
  by (simp_all add: updateEquipmentStatus_def)

lemma swabInflux_frame [simp]:
  "controls (swabInflux en r s) = controls s"
  "formation (swabInflux en r s) = formation s"
  "speed (swabInflux en r s) = speed s"
  "trippingStatus (swabInflux en r s) = trippingStatus s"
  "casingDepth (swabInflux en r s) = casingDepth s"
  "lastCasingRun (swabInflux en r s) = lastCasingRun s"
  "equipmentStatus (swabInflux en r s) = equipmentStatus s"
  "checkpoints (swabInflux en r s) = checkpoints s"
  "gameOver (swabInflux en r s) = gameOver s"
  "simulationTime (swabInflux en r s) = simulationTime s"
  "scenario (swabInflux en r s) = scenario s"
  "wellType (swabInflux en r s) = wellType s"
  "kickEvents (swabInflux en r s) = kickEvents s"
  "bitDepth (currentData (swabInflux en r s)) = bitDepth (currentData s)"
  "mudWeight (currentData (swabInflux en r s)) = mudWeight (currentData s)"
  by (simp_all add: swabInflux_def Let_def)

lemma swabEffect_frame [simp]:
  "controls (swabEffect en v s) = controls s"
  "formation (swabEffect en v s) = formation s"
  "speed (swabEffect en v s) = speed s"
  "trippingStatus (swabEffect en v s) = trippingStatus s"
  "casingDepth (swabEffect en v s) = casingDepth s"
  "lastCasingRun (swabEffect en v s) = lastCasingRun s"
  "equipmentStatus (swabEffect en v s) = equipmentStatus s"
  "checkpoints (swabEffect en v s) = checkpoints s"
  "gameOver (swabEffect en v s) = gameOver s"
  "simulationTime (swabEffect en v s) = simulationTime s"
  "scenario (swabEffect en v s) = scenario s"
  "wellType (swabEffect en v s) = wellType s"
  "kickEvents (swabEffect en v s) = kickEvents s"
  "bitDepth (currentData (swabEffect en v s)) = bitDepth (currentData s)"
  "mudWeight (currentData (swabEffect en v s)) = mudWeight (currentData s)"
  by (simp_all add: swabEffect_def Let_def)

lemma surgeLoss_frame [simp]:
  "controls (surgeLoss en r s) = controls s"
  "formation (surgeLoss en r s) = formation s"
  "speed (surgeLoss en r s) = speed s"
  "trippingStatus (surgeLoss en r s) = trippingStatus s"
  "casingDepth (surgeLoss en r s) = casingDepth s"
  "lastCasingRun (surgeLoss en r s) = lastCasingRun s"
  "equipmentStatus (surgeLoss en r s) = equipmentStatus s"
  "checkpoints (surgeLoss en r s) = checkpoints s"
  "gameOver (surgeLoss en r s) = gameOver s"
  "simulationTime (surgeLoss en r s) = simulationTime s"
  "scenario (surgeLoss en r s) = scenario s"
  "wellType (surgeLoss en r s) = wellType s"
  "kickEvents (surgeLoss en r s) = kickEvents s"
  "bitDepth (currentData (surgeLoss en r s)) = bitDepth (currentData s)"
  "mudWeight (currentData (surgeLoss en r s)) = mudWeight (currentData s)"
  by (simp_all add: surgeLoss_def Let_def)

lemma surgeEffect_frame [simp]:
  "controls (surgeEffect en v s) = controls s"
  "formation (surgeEffect en v s) = formation s"
  "speed (surgeEffect en v s) = speed s"
  "trippingStatus (surgeEffect en v s) = trippingStatus s"
  "casingDepth (surgeEffect en v s) = casingDepth s"
  "lastCasingRun (surgeEffect en v s) = lastCasingRun s"
  "equipmentStatus (surgeEffect en v s) = equipmentStatus s"
  "checkpoints (surgeEffect en v s) = checkpoints s"
  "gameOver (surgeEffect en v s) = gameOver s"
  "simulationTime (surgeEffect en v s) = simulationTime s"
  "scenario (surgeEffect en v s) = scenario s"
  "wellType (surgeEffect en v s) = wellType s"
  "kickEvents (surgeEffect en v s) = kickEvents s"
  "bitDepth (currentData (surgeEffect en v s)) = bitDepth (currentData s)"
  "mudWeight (currentData (surgeEffect en v s)) = mudWeight (currentData s)"
  by (simp_all add: surgeEffect_def Let_def)

lemma checkTrippingOperations_frame [simp]:
  "controls (checkTrippingOperations en s) = controls s"
  "formation (checkTrippingOperations en s) = formation s"
  "speed (checkTrippingOperations en s) = speed s"
  "casingDepth (checkTrippingOperations en s) = casingDepth s"
  "lastCasingRun (checkTrippingOperations en s) = lastCasingRun s"
  "equipmentStatus (checkTrippingOperations en s) = equipmentStatus s"
  "checkpoints (checkTrippingOperations en s) = checkpoints s"
  "gameOver (checkTrippingOperations en s) = gameOver s"
  "simulationTime (checkTrippingOperations en s) = simulationTime s"
  "scenario (checkTrippingOperations en s) = scenario s"
  "wellType (checkTrippingOperations en s) = wellType s"
  "kickEvents (checkTrippingOperations en s) = kickEvents s"
  "bitDepth (currentData (checkTrippingOperations en s)) = bitDepth (currentData s)"
  "mudWeight (currentData (checkTrippingOperations en s)) = mudWeight (currentData s)"
  by (simp_all add: checkTrippingOperations_def Let_def)

lemma createCheckpoint_frame [simp]:
  "controls (snd (createCheckpoint en a s)) = controls s"
  "formation (snd (createCheckpoint en a s)) = formation s"
  "speed (snd (createCheckpoint en a s)) = speed s"
  "trippingStatus (snd (createCheckpoint en a s)) = trippingStatus s"
  "casingDepth (snd (createCheckpoint en a s)) = casingDepth s"
  "lastCasingRun (snd (createCheckpoint en a s)) = lastCasingRun s"
  "equipmentStatus (snd (createCheckpoint en a s)) = equipmentStatus s"
  "gameOver (snd (createCheckpoint en a s)) = gameOver s"
  "simulationTime (snd (createCheckpoint en a s)) = simulationTime s"
  "currentData (snd (createCheckpoint en a s)) = currentData s"
  "scenario (snd (createCheckpoint en a s)) = scenario s"
  "wellType (snd (createCheckpoint en a s)) = wellType s"
  "kickEvents (snd (createCheckpoint en a s)) = kickEvents s"
  by (simp_all add: createCheckpoint_def Let_def)

lemma autoCheckpoint_frame [simp]:
  "controls (autoCheckpoint en inc s) = controls s"
  "formation (autoCheckpoint en inc s) = formation s"
  "speed (autoCheckpoint en inc s) = speed s"
  "trippingStatus (autoCheckpoint en inc s) = trippingStatus s"
  "casingDepth (autoCheckpoint en inc s) = casingDepth s"
  "lastCasingRun (autoCheckpoint en inc s) = lastCasingRun s"
  "equipmentStatus (autoCheckpoint en inc s) = equipmentStatus s"
  "gameOver (autoCheckpoint en inc s) = gameOver s"
  "simulationTime (autoCheckpoint en inc s) = simulationTime s"
  "currentData (autoCheckpoint en inc s) = currentData s"
  "scenario (autoCheckpoint en inc s) = scenario s"
  "wellType (autoCheckpoint en inc s) = wellType s"
  "kickEvents (autoCheckpoint en inc s) = kickEvents s"
  by (simp_all add: autoCheckpoint_def)

lemma periodicLog_frame [simp]:
  "controls (periodicLog en s) = controls s"
  "formation (periodicLog en s) = formation s"
  "speed (periodicLog en s) = speed s"
  "trippingStatus (periodicLog en s) = trippingStatus s"
  "casingDepth (periodicLog en s) = casingDepth s"
  "lastCasingRun (periodicLog en s) = lastCasingRun s"
  "equipmentStatus (periodicLog en s) = equipmentStatus s"
  "checkpoints (periodicLog en s) = checkpoints s"
  "gameOver (periodicLog en s) = gameOver s"
  "simulationTime (periodicLog en s) = simulationTime s"
  "currentData (periodicLog en s) = currentData s"
  "scenario (periodicLog en s) = scenario s"
  "wellType (periodicLog en s) = wellType s"
  "kickEvents (periodicLog en s) = kickEvents s"
  by (simp_all add: periodicLog_def)

lemma checkKickHandling_frame [simp]:
  "controls (checkKickHandling en s) = controls s"
  "formation (checkKickHandling en s) = formation s"
  "speed (checkKickHandling en s) = speed s"
  "trippingStatus (checkKickHandling en s) = trippingStatus s"
  "casingDepth (checkKickHandling en s) = casingDepth s"
  "lastCasingRun (checkKickHandling en s) = lastCasingRun s"
  "equipmentStatus (checkKickHandling en s) = equipmentStatus s"
  "checkpoints (checkKickHandling en s) = checkpoints s"
  "gameOver (checkKickHandling en s) = gameOver s"
  "simulationTime (checkKickHandling en s) = simulationTime s"
  "currentData (checkKickHandling en s) = currentData s"
  "scenario (checkKickHandling en s) = scenario s"
  "wellType (checkKickHandling en s) = wellType s"
  "kickEvents (checkKickHandling en s) = kickEvents s"
  by (simp_all add: checkKickHandling_def Let_def)

subsection \<open>The tick as a whole\<close>

lemma updateSimulation_frame [simp]:
  "controls (updateSimulation en s) = controls s"
  "formation (updateSimulation en s) = formation s"
  "speed (updateSimulation en s) = speed s"
  "casingDepth (updateSimulation en s) = casingDepth s"
  "lastCasingRun (updateSimulation en s) = lastCasingRun s"
  "scenario (updateSimulation en s) = scenario s"
  "wellType (updateSimulation en s) = wellType s"
  by (simp_all add: updateSimulation_def Let_def)

lemma ticks_frame [simp]:
  "controls (ticks ens s) = controls s"
  "formation (ticks ens s) = formation s"
  "speed (ticks ens s) = speed s"
  by (induction ens arbitrary: s) simp_all

lemma moveBit_depth:
  "bitDepth (currentData (moveBit s)) =
     (if c_drawworks (controls s) = ''unlocked''
      then max 0 (bitDepth (currentData s)
                    + (c_hookPosition (controls s) - bitDepth (currentData s) / 100) * 10)
      else bitDepth (currentData s) + c_rop (controls s) / (3600 / speed s))"
  by (simp add: moveBit_def depthIncrementOf_def)

lemma updateSimulation_depth:
  "\<not> gameOver s \<Longrightarrow>
   bitDepth (currentData (updateSimulation en s)) = bitDepth (currentData (moveBit s))"
  by (simp add: updateSimulation_def Let_def moveBit_def depthIncrementOf_def)

subsection \<open>Equipment health along the operations\<close>

lemma noHealthier_refl [simp]: "noHealthier q q"
  by (simp add: noHealthier_def)

lemma noHealthier_trans: "noHealthier q'' q' \<Longrightarrow> noHealthier q' q \<Longrightarrow> noHealthier q'' q"
  by (auto simp: noHealthier_def)

lemma noHealthier_bound: "noHealthier q' q \<Longrightarrow> healthsAtMost100 q \<Longrightarrow> healthsAtMost100 q'"
  by (auto simp: noHealthier_def healthsAtMost100_def)

lemma wearPumps_wear: "noHealthier (equipmentStatus (wearPumps s)) (equipmentStatus s)"
  by (simp add: wearPumps_def Let_def noHealthier_def)

lemma readDrillString_wear: "noHealthier (equipmentStatus (readDrillString s)) (equipmentStatus s)"
  by (simp add: readDrillString_def noHealthier_def)

lemma damageDrillString_wear:
  "noHealthier (equipmentStatus (damageDrillString s)) (equipmentStatus s)"
  by (simp add: damageDrillString_def Let_def noHealthier_def)

lemma wearDrillString_wear:
  "noHealthier (equipmentStatus (wearDrillString en s)) (equipmentStatus s)"
  by (simp add: wearDrillString_def warnVibration_def warnTorque_def damageDrillString_wear)

lemma wearBop_wear: "noHealthier (equipmentStatus (wearBop en s)) (equipmentStatus s)"
  by (simp add: wearBop_def warnBop_def damageBop_def noHealthier_def)

lemma updateEquipmentStatus_wear:
  "noHealthier (equipmentStatus (updateEquipmentStatus en s)) (equipmentStatus s)"
proof -
  have a: "noHealthier (equipmentStatus (readDrillString (wearPumps s))) (equipmentStatus s)"
    by (rule noHealthier_trans [OF readDrillString_wear wearPumps_wear])
  have b: "noHealthier (equipmentStatus (wearDrillString en (readDrillString (wearPumps s))))
             (equipmentStatus s)"
    by (rule noHealthier_trans [OF wearDrillString_wear a])
  show ?thesis
    unfolding updateEquipmentStatus_def
    by (rule noHealthier_trans [OF wearBop_wear b])
qed

lemma updateSimulation_wear:
  "noHealthier (equipmentStatus (updateSimulation en s)) (equipmentStatus s)"
proof (cases "gameOver s")
  case True
  then show ?thesis by (simp add: updateSimulation_def)
next
  case False
  let ?fp = "getFormationPropertiesAtDepth (advanceClock s) (bitDepth (currentData (advanceClock s)))"
  let ?s6 = "checkGameOverConditions en ?fp (checkForEvents en ?fp (updateParameters ?fp
               (moveBit (checkFormationTransition en (bitDepth (currentData (advanceClock s)))
                  (advanceClock s)))))"
  have e6: "equipmentStatus ?s6 = equipmentStatus s"
    by simp
  have "equipmentStatus (updateSimulation en s) = equipmentStatus (updateEquipmentStatus en ?s6)"
    using False by (simp add: updateSimulation_def Let_def del: updateEquipmentStatus_frame)
  with updateEquipmentStatus_wear [of en ?s6] e6 show ?thesis
    by simp
qed

subsection \<open>What the commands leave alone\<close>

lemma logActions_frame [simp]:
  "gameOver (foldl (\<lambda>st c. if p c then logAction en (k c) (v c) st else st) s0 cs) = gameOver s0"
  "equipmentStatus (foldl (\<lambda>st c. if p c then logAction en (k c) (v c) st else st) s0 cs)
     = equipmentStatus s0"
  "checkpoints (foldl (\<lambda>st c. if p c then logAction en (k c) (v c) st else st) s0 cs)
     = checkpoints s0"
  by (induction cs arbitrary: s0) (simp_all add: logAction_def)

lemma setControls_frame [simp]:
  "gameOver (setControls en cs s) = gameOver s"
  "equipmentStatus (setControls en cs s) = equipmentStatus s"
  "checkpoints (setControls en cs s) = checkpoints s"
  by (simp_all add: setControls_def Let_def)

lemma casing_tripping_frame [simp]:
  "gameOver (runCasing en s) = gameOver s"
  "equipmentStatus (runCasing en s) = equipmentStatus s"
  "checkpoints (runCasing en s) = checkpoints s"
  "gameOver (startTripping en dir v s) = gameOver s"
  "equipmentStatus (startTripping en dir v s) = equipmentStatus s"
  "checkpoints (startTripping en dir v s) = checkpoints s"
  "gameOver (stopTripping en s) = gameOver s"
  "equipmentStatus (stopTripping en s) = equipmentStatus s"
  "checkpoints (stopTripping en s) = checkpoints s"
  by (simp_all add: runCasing_def startTripping_def stopTripping_def logAction_def Let_def)

lemma clock_frame [simp]:
  "gameOver (start s) = gameOver s"
  "equipmentStatus (start s) = equipmentStatus s"
  "checkpoints (start s) = checkpoints s"
  "gameOver (stop s) = gameOver s"
  "equipmentStatus (stop s) = equipmentStatus s"
  "checkpoints (stop s) = checkpoints s"
  "gameOver (pause s) = gameOver s"
  "equipmentStatus (pause s) = equipmentStatus s"
  "checkpoints (pause s) = checkpoints s"
  "gameOver (resume s) = gameOver s"
  "equipmentStatus (resume s) = equipmentStatus s"
  "checkpoints (resume s) = checkpoints s"
  "gameOver (setSpeed x s) = gameOver s"
  "equipmentStatus (setSpeed x s) = equipmentStatus s"
  "checkpoints (setSpeed x s) = checkpoints s"
  by (simp_all add: start_def stop_def pause_def resume_def setSpeed_def Let_def)

lemma configuration_frame [simp]:
  "gameOver (setTrainingMode m s) = gameOver s"
  "equipmentStatus (setTrainingMode m s) = equipmentStatus s"
  "checkpoints (setTrainingMode m s) = checkpoints s"
  "gameOver (setWellType t s) = gameOver s"
  "equipmentStatus (setWellType t s) = equipmentStatus s"
  "checkpoints (setWellType t s) = checkpoints s"
  "gameOver (setTargetDepth d s) = gameOver s"
  "equipmentStatus (setTargetDepth d s) = equipmentStatus s"
  "checkpoints (setTargetDepth d s) = checkpoints s"
  "gameOver (setFormation f s) = gameOver s"
  "equipmentStatus (setFormation f s) = equipmentStatus s"
  "checkpoints (setFormation f s) = checkpoints s"
  by (simp_all add: setTrainingMode_def setWellType_def setTargetDepth_def setFormation_def)

lemma reset_frame [simp]:
  "equipmentStatus (resetGameOver s) = initialEquipment"
  "checkpoints (resetGameOver s) = checkpoints s"
  "equipmentStatus (reset s) = initialEquipment"
  "checkpoints (reset s) = checkpoints s"
  "equipmentStatus (loadScenario sc s) = initialEquipment"
  "checkpoints (loadScenario sc s) = checkpoints s"
  by (simp_all add: resetGameOver_def reset_def stop_def loadScenario_def Let_def)

lemma getRiskLevel_frame [simp]:
  "equipmentStatus (snd (getRiskLevel en s)) = equipmentStatus s"
  "checkpoints (snd (getRiskLevel en s)) = checkpoints s"
  "currentData (snd (getRiskLevel en s)) = currentData s"
  "controls (snd (getRiskLevel en s)) = controls s"
  "formation (snd (getRiskLevel en s)) = formation s"
  "speed (snd (getRiskLevel en s)) = speed s"
  "trippingStatus (snd (getRiskLevel en s)) = trippingStatus s"
  "casingDepth (snd (getRiskLevel en s)) = casingDepth s"
  "lastCasingRun (snd (getRiskLevel en s)) = lastCasingRun s"
  "simulationTime (snd (getRiskLevel en s)) = simulationTime s"
  "scenario (snd (getRiskLevel en s)) = scenario s"
  "wellType (snd (getRiskLevel en s)) = wellType s"
  by (simp_all add: getRiskLevel_def Let_def)


lemma tick_keeps_gameOver: "gameOver s \<Longrightarrow> gameOver (updateSimulation en s)"
  by (simp add: updateSimulation_def)





subsection \<open>The terminal state\<close>




subsection \<open>Loading a checkpoint\<close>


lemma loadCheckpoint_found:
  assumes "find (\<lambda>cp. cp_id cp = i) (checkpoints s) = Some cp"
  shows "fst (loadCheckpoint en i s) = True"
    and "gameOver (snd (loadCheckpoint en i s)) = False"
    and "currentData (snd (loadCheckpoint en i s)) = s_currentData (cp_state cp)"
    and "arrays (snd (loadCheckpoint en i s)) = arrays s"
    and "equipmentStatus (snd (loadCheckpoint en i s)) = s_equipmentStatus (cp_state cp)"
    and "checkpoints (snd (loadCheckpoint en i s)) = checkpoints s"
  using assms by (simp_all add: loadCheckpoint_def Let_def addTimelineEvent_def)




subsection \<open>Equipment health stays at or below 100\<close>

lemma healthInvariant_same:
  "equipmentStatus s' = equipmentStatus s \<Longrightarrow> checkpoints s' = checkpoints s \<Longrightarrow>
   healthInvariant s' = healthInvariant s"
  by (simp add: healthInvariant_def)

lemma healthInvariant_wear:
  "healthInvariant s \<Longrightarrow> noHealthier (equipmentStatus s') (equipmentStatus s) \<Longrightarrow>
   checkpoints s' = checkpoints s \<Longrightarrow> healthInvariant s'"
  by (auto simp: healthInvariant_def intro: noHealthier_bound)

lemma healthInvariant_initial:
  "checkpoints s' = checkpoints s \<Longrightarrow> equipmentStatus s' = initialEquipment \<Longrightarrow>
   healthInvariant s \<Longrightarrow> healthInvariant s'"
  by (simp add: healthInvariant_def healthsAtMost100_def initialEquipment_def)

lemma lastN_subset: "set (lastN n xs) \<subseteq> set xs"
  by (simp add: lastN_def set_drop_subset)

lemma createCheckpoint_equipment:
  "s_equipmentStatus (cp_state (fst (createCheckpoint en a s))) = equipmentStatus s"
  by (simp add: createCheckpoint_def Let_def)

lemma createCheckpoint_members:
  "set (checkpoints (snd (createCheckpoint en a s)))
     \<subseteq> insert (fst (createCheckpoint en a s)) (set (checkpoints s))"
proof -
  have "set (checkpoints (snd (createCheckpoint en a s)))
          \<subseteq> set (checkpoints s @ [fst (createCheckpoint en a s)])"
    using lastN_subset [of 10 "checkpoints s @ [fst (createCheckpoint en a s)]"]
    by (simp add: createCheckpoint_checkpoints)
  then show ?thesis by auto
qed

lemma createCheckpoint_healthInvariant:
  assumes "healthInvariant s"
  shows "healthInvariant (snd (createCheckpoint en a s))"
proof -
  have e: "equipmentStatus (snd (createCheckpoint en a s)) = equipmentStatus s"
    by simp
  have "healthsAtMost100 (s_equipmentStatus (cp_state cp))"
    if "cp \<in> set (checkpoints (snd (createCheckpoint en a s)))" for cp
  proof -
    from that createCheckpoint_members [of en a s]
    have "cp = fst (createCheckpoint en a s) \<or> cp \<in> set (checkpoints s)"
      by auto
    then show ?thesis
      using assms by (auto simp: healthInvariant_def createCheckpoint_equipment)
  qed
  with assms e show ?thesis
    by (simp add: healthInvariant_def)
qed

lemma autoCheckpoint_healthInvariant:
  "healthInvariant s \<Longrightarrow> healthInvariant (autoCheckpoint en d s)"
  by (simp add: autoCheckpoint_def createCheckpoint_healthInvariant)

lemma updateSimulation_healthInvariant:
  assumes "healthInvariant s"
  shows "healthInvariant (updateSimulation en s)"
proof (cases "gameOver s")
  case True
  with assms show ?thesis by (simp add: updateSimulation_def)
next
  case False
  let ?fp = "getFormationPropertiesAtDepth (advanceClock s) (bitDepth (currentData (advanceClock s)))"
  let ?s2 = "checkFormationTransition en (bitDepth (currentData (advanceClock s))) (advanceClock s)"
  let ?s6 = "checkGameOverConditions en ?fp (checkForEvents en ?fp (updateParameters ?fp
               (moveBit ?s2)))"
  let ?s8 = "checkTrippingOperations en (updateEquipmentStatus en ?s6)"
  let ?s9 = "autoCheckpoint en (depthIncrementOf ?s2) ?s8"
  have "healthInvariant ?s6 = healthInvariant s"
    by (rule healthInvariant_same) simp_all
  with assms have i6: "healthInvariant ?s6"
    by simp
  have i7: "healthInvariant (updateEquipmentStatus en ?s6)"
    using i6 updateEquipmentStatus_wear by (rule healthInvariant_wear) simp
  have "healthInvariant ?s8 = healthInvariant (updateEquipmentStatus en ?s6)"
    by (rule healthInvariant_same) simp_all
  with i7 have i8: "healthInvariant ?s8"
    by simp
  then have i9: "healthInvariant ?s9"
    by (rule autoCheckpoint_healthInvariant)
  have "healthInvariant (checkKickHandling en (periodicLog en ?s9)) = healthInvariant ?s9"
    by (rule healthInvariant_same) simp_all
  with i9 have "healthInvariant (checkKickHandling en (periodicLog en ?s9))"
    by simp
  moreover have "updateSimulation en s = checkKickHandling en (periodicLog en ?s9)"
    using False by (simp only: updateSimulation_def Let_def if_False)
  ultimately show ?thesis
    by simp
qed

lemma loadCheckpoint_healthInvariant:
  assumes "healthInvariant s"
  shows "healthInvariant (snd (loadCheckpoint en i s))"
proof (cases "find (\<lambda>cp. cp_id cp = i) (checkpoints s)")
  case None
  with assms show ?thesis by (simp add: loadCheckpoint_def)
next
  case (Some cp)
  then have m: "cp \<in> set (checkpoints s)"
    by (auto simp: find_Some_iff)
  have "equipmentStatus (snd (loadCheckpoint en i s)) = s_equipmentStatus (cp_state cp)"
    and "checkpoints (snd (loadCheckpoint en i s)) = checkpoints s"
    by (rule loadCheckpoint_found(5) [OF Some], rule loadCheckpoint_found(6) [OF Some])
  with assms m show ?thesis
    by (simp add: healthInvariant_def)
qed

lemma refresh_healthInvariant:
  assumes "healthInvariant s"
  shows "healthInvariant (timerFires en s)"
    and "healthInvariant (refreshLogs en s)"
    and "healthInvariant (refreshData en s)"
proof -
  show "healthInvariant (timerFires en s)"
    using assms by (simp add: timerFires_def updateSimulation_healthInvariant)
  have "healthInvariant (addToLogs en s) = healthInvariant s"
    by (rule healthInvariant_same) simp_all
  with assms show l: "healthInvariant (refreshLogs en s)"
    by (simp add: refreshLogs_def)
  then show "healthInvariant (refreshData en s)"
    by (simp add: refreshData_def Let_def updateSimulation_healthInvariant)
qed

lemma exec_healthInvariant:
  assumes "healthInvariant s"
  shows "healthInvariant (exec c s)"
proof (cases c)
  case Reset
  with assms show ?thesis by (simp add: healthInvariant_initial [of "reset s" s])
next
  case ResetGameOver
  with assms show ?thesis by (simp add: healthInvariant_initial [of "resetGameOver s" s])
next
  case (LoadScenario sc)
  with assms show ?thesis by (simp add: healthInvariant_initial [of "loadScenario sc s" s])
next
  case (TimerFires en)
  with assms show ?thesis by (simp add: refresh_healthInvariant)
next
  case (RefreshLogs en)
  with assms show ?thesis by (simp add: refresh_healthInvariant)
next
  case (RefreshData en)
  with assms show ?thesis by (simp add: refresh_healthInvariant)
next
  case (CreateCheckpoint en a)
  with assms show ?thesis by (simp add: createCheckpoint_healthInvariant)
next
  case (LoadCheckpoint en i)
  with assms show ?thesis by (simp add: loadCheckpoint_healthInvariant)
qed (use assms in \<open>simp_all add: healthInvariant_def\<close>)

lemma newEngine_healthInvariant: "healthInvariant newEngine"
  by (simp add: healthInvariant_def newEngine_def healthsAtMost100_def initialEquipment_def)

lemma reachable_healthInvariant: "reachable s \<Longrightarrow> healthInvariant s"
  by (induction rule: reachable.induct)
     (simp_all add: newEngine_healthInvariant exec_healthInvariant)

lemma reachable_run: "reachable s \<Longrightarrow> reachable (run cs s)"
  by (induction cs arbitrary: s) (simp_all add: reachable_exec)

text \<open>Claim C7, as the code has it. In every reachable engine state the health of the
  pumps, of the drill string and of the BOP is at most 100, before and after every tick,
  and a tick never raises the health of a unit. (There is no lower bound: the damage is
  subtracted without a clamp.)\<close>

theorem C7_health_at_most_100_and_never_rising:
  assumes "reachable s"
  shows "healthsAtMost100 (equipmentStatus s)
       \<and> healthsAtMost100 (equipmentStatus (updateSimulation en s))
       \<and> noHealthier (equipmentStatus (updateSimulation en s)) (equipmentStatus s)"
proof -
  from assms have i: "healthInvariant s"
    by (rule reachable_healthInvariant)
  then have "healthInvariant (updateSimulation en s)"
    by (rule updateSimulation_healthInvariant)
  with i updateSimulation_wear [of en s] show ?thesis
    by (simp add: healthInvariant_def)
qed

theorem C7_health_witness:
  "reachable fastRotation
   \<and> healthsAtMost100 (equipmentStatus fastRotation)
   \<and> healthsAtMost100 (equipmentStatus (updateSimulation exampleEnv fastRotation))
   \<and> noHealthier (equipmentStatus (updateSimulation exampleEnv fastRotation))
        (equipmentStatus fastRotation)
   \<and> bop_health (equipmentStatus fastRotation) = 0
   \<and> drillString_health (equipmentStatus fastRotation) = 90"
proof -
  have r: "reachable fastRotation"
    unfolding fastRotation_def by (rule reachable_run [OF reachable_new])
  have v: "bop_health (equipmentStatus fastRotation) = 0"
          "drillString_health (equipmentStatus fastRotation) = 90"
    by code_simp+
  from C7_health_at_most_100_and_never_rising [OF r, of exampleEnv] r v show ?thesis
    by simp
qed

text \<open>The claim as stated fails on the lower bound. With the BOP closed and the rotary
  speed at 200 rpm the BOP health is 0 after five ticks, the game is not over, and the
  sixth tick takes the health to -20.\<close>

theorem C7_negative_health_counterexample:
  "reachable fastRotation
   \<and> \<not> isGameOver fastRotation
   \<and> bop_health (equipmentStatus (updateSimulation exampleEnv fastRotation)) = - 20"
proof -
  have r: "reachable fastRotation"
    unfolding fastRotation_def by (rule reachable_run [OF reachable_new])
  have v: "\<not> isGameOver fastRotation"
          "bop_health (equipmentStatus (updateSimulation exampleEnv fastRotation)) = - 20"
    by code_simp+
  from r v show ?thesis by simp
qed

subsection \<open>What the risk getter changes\<close>










end
